theory Spec2Isabelle
  imports Main "HOL-Library.Char_ord" "HOL-Library.List_Lexorder"
begin

section \<open>The language-server glue layer of the C/C++ extension\<close>

text \<open>
  A shallow embedding of \<^verbatim>\<open>Extension/src/LanguageServer/extension.ts\<close>.
  The module's top-level \<^verbatim>\<open>let\<close> variables become the fields of one
  record that every function takes and returns. What the module reads from the
  editor host (open folders, open documents, the active editor, the file system,
  the user's answer to a picker) is the record \<open>env\<close>. Calls into the
  collaborators that live in other modules (clients, UI, settings, timers) are
  appended, in program order, to the field \<open>effects\<close>.
  A JavaScript exception is a value: a procedure returns \<open>(Some e, s)\<close>
  when it throws \<open>e\<close> with the module variables left as \<open>s\<close>.
\<close>

subsection \<open>Data of the editor host\<close>

datatype error = TypeError

type_synonym position = "nat \<times> nat"

text \<open>A \<^verbatim>\<open>Uri\<close> is an object: \<^verbatim>\<open>!==\<close> compares the
  object (\<open>uri_object\<close>), \<^verbatim>\<open>toString()\<close> gives its text.\<close>

record uri =
  uri_object :: nat
  uri_toString :: string

record textDocument =
  doc_uri :: uri
  languageId :: string
  fileName :: string

record textEditor =
  document :: textDocument
  selection_start :: position

record workspaceFolder =
  fsPath :: string

record client =
  Name :: string
  RootPath :: string

type_synonym provider = string

text \<open>
  Modelled from the spec: \<^verbatim>\<open>ClientCollection\<close> (clientCollection.ts is not
  part of the sources). The spec describes it as a mapping from workspace key to
  client in folder-open order, with exactly one client marked active.
\<close>

record clientCollection =
  languageClients :: "(string \<times> client) list"
  ActiveClient :: client

definition Count :: "clientCollection \<Rightarrow> nat" where
  "Count cc = length (languageClients cc)"

definition Names :: "clientCollection \<Rightarrow> string list" where
  "Names cc = map fst (languageClients cc)"

definition get_client :: "clientCollection \<Rightarrow> string \<Rightarrow> client option" where
  "get_client cc key = map_of (languageClients cc) key"

definition forEach_client :: "clientCollection \<Rightarrow> client list" where
  "forEach_client cc = map snd (languageClients cc)"

text \<open>
  What a handler reads from outside the module when it runs:
  \<^verbatim>\<open>vscode.workspace.workspaceFolders\<close> and \<^verbatim>\<open>textDocuments\<close> (\<open>None\<close>
  for \<^verbatim>\<open>undefined\<close>), \<^verbatim>\<open>vscode.window.activeTextEditor\<close>, the file system
  and path functions of the runtime, the registered custom configuration providers,
  the collection that \<^verbatim>\<open>new ClientCollection()\<close> builds for the workspace, what
  \<^verbatim>\<open>clients.activeDocumentChanged(document)\<close> makes of a collection, the key the
  user picks when \<^verbatim>\<open>ui.showWorkspaces\<close> is shown (empty when dismissed), and
  \<^verbatim>\<open>process.platform\<close>.
\<close>

record env =
  workspaceFolders :: "workspaceFolder list option"
  textDocuments :: "textDocument list option"
  activeTextEditor :: "textEditor option"
  existsSync :: "string \<Rightarrow> bool"
  path_join :: "string \<Rightarrow> string \<Rightarrow> string"
  path_dirname :: "string \<Rightarrow> string"
  customConfigProviders :: "provider list"
  newClientCollection :: clientCollection
  activeDocumentChanged :: "textDocument \<Rightarrow> clientCollection \<Rightarrow> clientCollection"
  showWorkspaces :: "string list \<Rightarrow> string"
  process_platform :: string

subsection \<open>Module state\<close>

text \<open>The disposables the module holds: a registered command, by its identifier, or
  the subscription of one of its listeners.\<close>

datatype disposable =
    Command string
  | Sub_onDidOpenTextDocument
  | Sub_onDidChangeConfiguration
  | Sub_onDidSaveTextDocument
  | Sub_onDidChangeActiveTextEditor
  | Sub_onDidChangeTextEditorSelection
  | Sub_onDidChangeVisibleTextEditors

text \<open>A registered language configuration (also a \<^verbatim>\<open>Disposable\<close>), by the
  language it is for.\<close>

datatype languageConfiguration = LanguageConfiguration string

datatype ui_handle = UI

datatype timer = Interval_onInterval nat

text \<open>The extension's own \<^verbatim>\<open>package.json\<close>, as far as this module touches it:
  \<^verbatim>\<open>categories\<close> and the optional key \<^verbatim>\<open>contributes.snippets\<close> (a list
  of language/path pairs). Every other key rides along in the record's extension.\<close>

record manifest =
  categories :: "string list"
  contributes_snippets :: "(string \<times> string) list option"

text \<open>The calls the command handlers make on a client.\<close>

datatype client_request =
    RequestNavigationList textDocument
  | RequestGoToDeclaration string
  | RequestSwitchHeaderSource string string
  | ResetDatabase
  | HandleConfigurationSelectCommand
  | HandleConfigurationProviderSelectCommand
  | HandleConfigurationEditCommand
  | HandleAddToIncludePathCommand string
  | PauseParsing
  | ResumeParsing
  | HandleShowParsingCommands

text \<open>The calls the module makes on its collaborators.\<close>

datatype effect =
    New_ClientCollection
  | GetUI
  | Dispose disposable
  | Dispose_languageConfiguration languageConfiguration
  | Clients_activeDocumentChanged textDocument
  | Client_selectionChanged client position
  | UI_activeDocumentChanged
  | Client_onRegisterCustomConfigurationProvider client provider
  | SetLanguageConfiguration string client
  | Fs_stat_crashFolder
  | SetInterval timer
  | UI_showWorkspaces "string list"
  | Client_call client client_request
  | ShowInformationMessage string
  | Settings_toggleSetting client string string string
  | Settings_update_dimInactiveRegions client
  | WriteFile_packageJson manifest string
  | ShowReleaseNotes
  | LogLanguageServerEvent string
  | OpenSurvey

text \<open>
  Modelled from the spec: \<^verbatim>\<open>PersistentWorkspaceState\<close> (persistentState.ts is
  not part of the sources). The spec describes \<^verbatim>\<open>activatedPreviously\<close> as a
  persisted boolean that survives process restarts and is read once at startup: a
  wrapper whose \<^verbatim>\<open>Value\<close> reads and writes the workspace's storage, with
  \<^verbatim>\<open>false\<close> as the default. \<open>activatedPreviously_bound\<close> says that the
  module variable holds the wrapper (it is \<^verbatim>\<open>undefined\<close> until
  \<^verbatim>\<open>activate\<close> assigns it); \<open>activatedPreviously_Value\<close> is the stored
  flag.
\<close>

record state =
  prevCrashFile :: "string option"
  clients :: "clientCollection option"
  activeDocument :: "string option"
  ui :: "ui_handle option"
  disposables :: "disposable list"
  languageConfigurations :: "languageConfiguration list"
  intervalTimer :: "timer option"
  realActivationOccurred :: bool
  tempCommands :: "disposable list"
  activatedPreviously_bound :: bool
  activatedPreviously_Value :: bool
  packageJson :: manifest
  effects :: "effect list"

type_synonym proc = "state \<Rightarrow> error option \<times> state"

definition returns :: proc where
  "returns s = (None, s)"

definition throws :: "error \<Rightarrow> proc" where
  "throws e s = (Some e, s)"

text \<open>Statements in sequence: the first that throws ends the run.\<close>

fun chain :: "proc list \<Rightarrow> proc" where
  "chain [] s = (None, s)"
| "chain (f # fs) s = (case f s of (None, s') \<Rightarrow> chain fs s' | (Some e, s') \<Rightarrow> (Some e, s'))"

definition emit :: "effect list \<Rightarrow> state \<Rightarrow> state" where
  "emit es s = s\<lparr>effects := effects s @ es\<rparr>"

text \<open>The module as loaded: every variable at its initialiser; \<open>p\<close> is the flag
  the previous session left in the workspace storage, \<open>m\<close> the extension's manifest.\<close>

definition init :: "bool \<Rightarrow> manifest \<Rightarrow> state" where
  "init p m = \<lparr>prevCrashFile = None, clients = None, activeDocument = None, ui = None,
     disposables = [], languageConfigurations = [], intervalTimer = None,
     realActivationOccurred = False, tempCommands = [],
     activatedPreviously_bound = False, activatedPreviously_Value = p,
     packageJson = m, effects = []\<rparr>"

subsection \<open>Activation\<close>

definition ui_activeDocumentChanged :: proc where
  "ui_activeDocumentChanged s =
     (case ui s of None \<Rightarrow> throws TypeError s
      | Some u \<Rightarrow> returns (emit [UI_activeDocumentChanged] s))"

definition onDidChangeActiveTextEditor :: "textEditor option \<Rightarrow> env \<Rightarrow> proc" where
  "onDidChangeActiveTextEditor editor e s =
     (case clients s of
        None \<Rightarrow> returns s
      | Some cc \<Rightarrow>
          (case activeTextEditor e of
             None \<Rightarrow> ui_activeDocumentChanged (s\<lparr>activeDocument := Some ''''\<rparr>)
           | Some activeEditor \<Rightarrow>
               if languageId (document activeEditor) \<noteq> ''cpp''
                  \<and> languageId (document activeEditor) \<noteq> ''c''
               then ui_activeDocumentChanged (s\<lparr>activeDocument := Some ''''\<rparr>)
               else
                 (case editor of
                    None \<Rightarrow> throws TypeError s
                  | Some ed \<Rightarrow>
                      let cc' = activeDocumentChanged e (document ed) cc in
                      ui_activeDocumentChanged
                        (emit [Clients_activeDocumentChanged (document ed),
                               Client_selectionChanged (ActiveClient cc') (selection_start ed)]
                          (s\<lparr>activeDocument := Some (uri_toString (doc_uri (document ed))),
                             clients := Some cc'\<rparr>)))))"

definition updateLanguageConfigurations :: proc where
  "updateLanguageConfigurations s =
     (let s1 = (emit (map Dispose_languageConfiguration (languageConfigurations s)) s)\<lparr>languageConfigurations := []\<rparr> in
      case clients s1 of
        None \<Rightarrow> throws TypeError s1
      | Some cc \<Rightarrow>
          returns ((emit [SetLanguageConfiguration ''c'' (ActiveClient cc),
                          SetLanguageConfiguration ''cpp'' (ActiveClient cc)] s1)
                    \<lparr>languageConfigurations := [LanguageConfiguration ''c'', LanguageConfiguration ''cpp'']\<rparr>))"

definition registerProviders :: "env \<Rightarrow> proc" where
  "registerProviders e s =
     (case clients s of
        None \<Rightarrow> throws TypeError s
      | Some cc \<Rightarrow>
          returns (emit (concat (map (\<lambda>c. map (Client_onRegisterCustomConfigurationProvider c)
                                          (customConfigProviders e))
                                 (forEach_client cc))) s))"

text \<open>On macOS \<^verbatim>\<open>reportMacCrashes\<close> resets \<^verbatim>\<open>prevCrashFile\<close> and issues
  \<^verbatim>\<open>fs.stat\<close> on the crash folder. The callback of \<^verbatim>\<open>fs.stat\<close> (telemetry on
  an error, \<^verbatim>\<open>fs.watch\<close> otherwise) runs later, outside this call.\<close>

definition reportMacCrashes :: "env \<Rightarrow> state \<Rightarrow> state" where
  "reportMacCrashes e s =
     (if process_platform e = ''darwin''
      then emit [Fs_stat_crashFolder] (s\<lparr>prevCrashFile := Some ''''\<rparr>)
      else s)"

definition nonEmpty :: "'a list option \<Rightarrow> bool" where
  "nonEmpty xs = (case xs of None \<Rightarrow> False | Some l \<Rightarrow> 0 < length l)"

definition realActivation :: "env \<Rightarrow> proc" where
  "realActivation e s =
     chain
       [\<lambda>s. returns (emit [New_ClientCollection, GetUI]
               (s\<lparr>realActivationOccurred := True,
                  clients := Some (newClientCollection e),
                  ui := Some UI\<rparr>)),
        \<lambda>s. if nonEmpty (textDocuments e)
             then onDidChangeActiveTextEditor (activeTextEditor e) e s
             else returns s,
        registerProviders e,
        \<lambda>s. returns (s\<lparr>disposables := disposables s @
               [Sub_onDidChangeConfiguration, Sub_onDidSaveTextDocument,
                Sub_onDidChangeActiveTextEditor, Sub_onDidChangeTextEditorSelection,
                Sub_onDidChangeVisibleTextEditors]\<rparr>),
        updateLanguageConfigurations,
        \<lambda>s. returns (reportMacCrashes e s),
        \<lambda>s. returns (emit [SetInterval (Interval_onInterval 2500)]
               (s\<lparr>intervalTimer := Some (Interval_onInterval 2500)\<rparr>))]
       s"

definition onActivationEvent :: "env \<Rightarrow> proc" where
  "onActivationEvent e s =
     (if length (tempCommands s) = 0 then returns s
      else
        chain
          [\<lambda>s. returns ((emit (map Dispose (tempCommands s)) s)\<lparr>tempCommands := []\<rparr>),
           \<lambda>s. if \<not> realActivationOccurred s then realActivation e s else returns s,
           \<lambda>s. if activatedPreviously_bound s
                then returns (s\<lparr>activatedPreviously_Value := True\<rparr>)
                else throws TypeError s]
          s)"

definition onDidOpenTextDocument :: "textDocument \<Rightarrow> env \<Rightarrow> proc" where
  "onDidOpenTextDocument d e s =
     (if languageId d = ''c'' \<or> languageId d = ''cpp'' then onActivationEvent e s else returns s)"

datatype command =
    Navigate | GoToDeclaration | PeekDeclaration | SwitchHeaderSource | ResetDatabaseCmd
  | ConfigurationSelect | ConfigurationProviderSelect | ConfigurationEdit | AddToIncludePath
  | ToggleErrorSquiggles | ToggleSnippets | ToggleIncludeFallback | ToggleDimInactiveRegions
  | ShowReleaseNotesCmd | PauseParsingCmd | ResumeParsingCmd | ShowParsingCommands | TakeSurvey

fun commandId :: "command \<Rightarrow> string" where
  "commandId Navigate = ''C_Cpp.Navigate''"
| "commandId GoToDeclaration = ''C_Cpp.GoToDeclaration''"
| "commandId PeekDeclaration = ''C_Cpp.PeekDeclaration''"
| "commandId SwitchHeaderSource = ''C_Cpp.SwitchHeaderSource''"
| "commandId ResetDatabaseCmd = ''C_Cpp.ResetDatabase''"
| "commandId ConfigurationSelect = ''C_Cpp.ConfigurationSelect''"
| "commandId ConfigurationProviderSelect = ''C_Cpp.ConfigurationProviderSelect''"
| "commandId ConfigurationEdit = ''C_Cpp.ConfigurationEdit''"
| "commandId AddToIncludePath = ''C_Cpp.AddToIncludePath''"
| "commandId ToggleErrorSquiggles = ''C_Cpp.ToggleErrorSquiggles''"
| "commandId ToggleSnippets = ''C_Cpp.ToggleSnippets''"
| "commandId ToggleIncludeFallback = ''C_Cpp.ToggleIncludeFallback''"
| "commandId ToggleDimInactiveRegions = ''C_Cpp.ToggleDimInactiveRegions''"
| "commandId ShowReleaseNotesCmd = ''C_Cpp.ShowReleaseNotes''"
| "commandId PauseParsingCmd = ''C_Cpp.PauseParsing''"
| "commandId ResumeParsingCmd = ''C_Cpp.ResumeParsing''"
| "commandId ShowParsingCommands = ''C_Cpp.ShowParsingCommands''"
| "commandId TakeSurvey = ''C_Cpp.TakeSurvey''"

definition registeredCommands :: "command list" where
  "registeredCommands =
     [Navigate, GoToDeclaration, PeekDeclaration, SwitchHeaderSource, ResetDatabaseCmd,
      ConfigurationSelect, ConfigurationProviderSelect, ConfigurationEdit, AddToIncludePath,
      ToggleErrorSquiggles, ToggleSnippets, ToggleIncludeFallback, ToggleDimInactiveRegions,
      ShowReleaseNotesCmd, PauseParsingCmd, ResumeParsingCmd, ShowParsingCommands, TakeSurvey]"

definition registerCommands :: "state \<Rightarrow> state" where
  "registerCommands s = s\<lparr>disposables := disposables s @ map (\<lambda>c. Command (commandId c)) registeredCommands\<rparr>"

text \<open>The two scans of \<^verbatim>\<open>activate\<close>: each loop calls
  \<^verbatim>\<open>onActivationEvent\<close> and returns at its first match.\<close>

fun configFileFound :: "env \<Rightarrow> workspaceFolder list \<Rightarrow> bool" where
  "configFileFound e [] = False"
| "configFileFound e (f # fs) =
     (if existsSync e (path_join e (fsPath f) ''.vscode/c_cpp_properties.json'') then True
      else configFileFound e fs)"

fun cppDocumentFound :: "textDocument list \<Rightarrow> bool" where
  "cppDocumentFound [] = False"
| "cppDocumentFound (d # ds) =
     (if languageId d = ''cpp'' \<or> languageId d = ''c'' then True else cppDocumentFound ds)"

definition scanFolders :: "env \<Rightarrow> bool" where
  "scanFolders e = (case workspaceFolders e of None \<Rightarrow> False | Some fs \<Rightarrow> configFileFound e fs)"

definition scanDocuments :: "env \<Rightarrow> bool" where
  "scanDocuments e = (case textDocuments e of None \<Rightarrow> False | Some ds \<Rightarrow> cppDocumentFound ds)"

definition activate :: "bool \<Rightarrow> env \<Rightarrow> proc" where
  "activate activationEventOccurred e s =
     chain
       [\<lambda>s. returns (s\<lparr>activatedPreviously_bound := True\<rparr>),
        \<lambda>s. if activatedPreviously_Value s
             then realActivation e (s\<lparr>activatedPreviously_Value := False\<rparr>)
             else returns s,
        \<lambda>s. returns (registerCommands s),
        \<lambda>s. returns (s\<lparr>tempCommands := tempCommands s @ [Sub_onDidOpenTextDocument]\<rparr>),
        \<lambda>s. if activationEventOccurred then onActivationEvent e s
             else if scanFolders e then onActivationEvent e s
             else if scanDocuments e then onActivationEvent e s
             else returns s]
       s"

text \<open>The exported accessors. The second component is what the caller receives.\<close>

definition getClients :: "env \<Rightarrow> state \<Rightarrow> (error option \<times> state) \<times> clientCollection option" where
  "getClients e s =
     (let r = (if \<not> realActivationOccurred s then realActivation e s else returns s)
      in (r, clients (snd r)))"

definition getActiveClient :: "env \<Rightarrow> state \<Rightarrow> (error option \<times> state) \<times> client option" where
  "getActiveClient e s =
     (let r = (if \<not> realActivationOccurred s then realActivation e s else returns s)
      in case fst r of
           Some err \<Rightarrow> (r, None)
         | None \<Rightarrow>
             (case clients (snd r) of
                None \<Rightarrow> ((Some TypeError, snd r), None)
              | Some cc \<Rightarrow> (r, Some (ActiveClient cc))))"

subsection \<open>Registered commands\<close>

definition isFolderOpen :: "env \<Rightarrow> bool" where
  "isFolderOpen e = nonEmpty (workspaceFolders e)"

datatype 'a promise = Resolved 'a | Rejected string

text \<open>\<^verbatim>\<open>ui.showWorkspaces\<close> answers with the picked key, or the empty string
  when the picker is dismissed; the continuation passed to \<^verbatim>\<open>then\<close> is run on
  that answer.\<close>

definition selectClient :: "env \<Rightarrow> state \<Rightarrow> (error + client promise) \<times> state" where
  "selectClient e s =
     (case clients s of
        None \<Rightarrow> (Inl TypeError, s)
      | Some cc \<Rightarrow>
          if Count cc = 1 then (Inr (Resolved (ActiveClient cc)), s)
          else
            (case ui s of
               None \<Rightarrow> (Inl TypeError, s)
             | Some u \<Rightarrow>
                 let key = showWorkspaces e (Names cc);
                     s1 = emit [UI_showWorkspaces (Names cc)] s
                 in if key \<noteq> ''''
                    then (case get_client cc key of
                            Some client \<Rightarrow> (Inr (Resolved client), s1)
                          | None \<Rightarrow> (Inr (Rejected ''client not found''), s1))
                    else (Inr (Rejected ''client not found''), s1)))"

text \<open>\<^verbatim>\<open>selectClient().then(client => client.request(), rejected => {})\<close>\<close>

definition selectClient_then :: "client_request \<Rightarrow> env \<Rightarrow> proc" where
  "selectClient_then req e s =
     (case selectClient e s of
        (Inl err, s1) \<Rightarrow> (Some err, s1)
      | (Inr (Resolved c), s1) \<Rightarrow> returns (emit [Client_call c req] s1)
      | (Inr (Rejected r), s1) \<Rightarrow> returns s1)"

text \<open>\<^verbatim>\<open>clients.ActiveClient.request(...)\<close>; what the handler chains onto the
  client's answer runs later, when the client answers.\<close>

definition ActiveClient_call :: "client_request \<Rightarrow> proc" where
  "ActiveClient_call req s =
     (case clients s of
        None \<Rightarrow> throws TypeError s
      | Some cc \<Rightarrow> returns (emit [Client_call (ActiveClient cc) req] s))"

definition onNavigate :: "env \<Rightarrow> proc" where
  "onNavigate e s =
     chain
       [onActivationEvent e,
        \<lambda>s. case activeTextEditor e of
               None \<Rightarrow> returns s
             | Some activeEditor \<Rightarrow> ActiveClient_call (RequestNavigationList (document activeEditor)) s]
       s"

definition onGoToDeclaration :: "env \<Rightarrow> proc" where
  "onGoToDeclaration e s =
     chain [onActivationEvent e,
            ActiveClient_call (RequestGoToDeclaration ''editor.action.goToDeclaration'')] s"

definition onPeekDeclaration :: "env \<Rightarrow> proc" where
  "onPeekDeclaration e s =
     chain [onActivationEvent e,
            ActiveClient_call (RequestGoToDeclaration ''editor.action.previewDeclaration'')] s"

definition onSwitchHeaderSource :: "env \<Rightarrow> proc" where
  "onSwitchHeaderSource e s =
     chain
       [onActivationEvent e,
        \<lambda>s. case activeTextEditor e of
               None \<Rightarrow> returns s
             | Some activeEditor \<Rightarrow>
                 if languageId (document activeEditor) \<noteq> ''cpp''
                    \<and> languageId (document activeEditor) \<noteq> ''c''
                 then returns s
                 else
                   (case clients s of
                      None \<Rightarrow> throws TypeError s
                    | Some cc \<Rightarrow>
                        let fname = fileName (document activeEditor);
                            rootPath = (if RootPath (ActiveClient cc) = ''''
                                        then path_dirname e fname
                                        else RootPath (ActiveClient cc))
                        in ActiveClient_call (RequestSwitchHeaderSource rootPath fname) s)]
       s"

definition onResetDatabase :: "env \<Rightarrow> proc" where
  "onResetDatabase e s = chain [onActivationEvent e, selectClient_then ResetDatabase e] s"

definition onSelectConfiguration :: "env \<Rightarrow> proc" where
  "onSelectConfiguration e s =
     chain
       [onActivationEvent e,
        \<lambda>s. if \<not> isFolderOpen e
             then returns (emit [ShowInformationMessage ''Open a folder first to select a configuration''] s)
             else ActiveClient_call HandleConfigurationSelectCommand s]
       s"

definition onSelectConfigurationProvider :: "env \<Rightarrow> proc" where
  "onSelectConfigurationProvider e s =
     chain
       [onActivationEvent e,
        \<lambda>s. if \<not> isFolderOpen e
             then returns (emit [ShowInformationMessage
                                   ''Open a folder first to select a configuration provider''] s)
             else selectClient_then HandleConfigurationProviderSelectCommand e s]
       s"

definition onEditConfiguration :: "env \<Rightarrow> proc" where
  "onEditConfiguration e s =
     chain
       [onActivationEvent e,
        \<lambda>s. if \<not> isFolderOpen e
             then returns (emit [ShowInformationMessage ''Open a folder first to edit configurations''] s)
             else selectClient_then HandleConfigurationEditCommand e s]
       s"

definition onAddToIncludePath :: "string \<Rightarrow> env \<Rightarrow> proc" where
  "onAddToIncludePath path e s =
     (if \<not> isFolderOpen e
      then returns (emit [ShowInformationMessage ''Open a folder first to add to includePath''] s)
      else ActiveClient_call (HandleAddToIncludePathCommand path) s)"

definition onToggleSquiggles :: "env \<Rightarrow> proc" where
  "onToggleSquiggles e s =
     chain
       [onActivationEvent e,
        \<lambda>s. case clients s of
               None \<Rightarrow> throws TypeError s
             | Some cc \<Rightarrow>
                 returns (emit [Settings_toggleSetting (ActiveClient cc)
                                  ''errorSquiggles'' ''Enabled'' ''Disabled''] s)]
       s"

text \<open>\<^verbatim>\<open>indexOf\<close> and \<^verbatim>\<open>findIndex\<close> with an equality test: the first
  index, or \<open>-1\<close>. \<^verbatim>\<open>splice(n, 1)\<close> removes the element at index \<open>n\<close>.\<close>

fun indexOf :: "'a list \<Rightarrow> 'a \<Rightarrow> int" where
  "indexOf [] x = - 1"
| "indexOf (y # ys) x =
     (if y = x then 0 else (if indexOf ys x = - 1 then - 1 else indexOf ys x + 1))"

definition splice1 :: "'a list \<Rightarrow> nat \<Rightarrow> 'a list" where
  "splice1 xs n = take n xs @ drop (Suc n) xs"

definition snippetsCatName :: string where
  "snippetsCatName = ''Snippets''"

text \<open>The manifest that \<^verbatim>\<open>onToggleSnippets\<close> writes, and the reload prompt it shows.\<close>

definition toggleSnippets :: "'a manifest_scheme \<Rightarrow> 'a manifest_scheme \<times> string" where
  "toggleSnippets newPackageJson =
     (if indexOf (categories newPackageJson) snippetsCatName = - 1
      then
        (newPackageJson
           \<lparr>categories := categories newPackageJson @ [snippetsCatName],
            contributes_snippets := Some [(''cpp'', ''./cpp_snippets.json''),
                                          (''c'', ''./cpp_snippets.json'')]\<rparr>,
         ''Reload Window to finish enabling C++ snippets'')
      else
        (let ndxCat = indexOf (categories newPackageJson) snippetsCatName;
             cats = (if ndxCat \<noteq> - 1 then splice1 (categories newPackageJson) (nat ndxCat)
                     else categories newPackageJson)
         in (newPackageJson\<lparr>categories := cats, contributes_snippets := None\<rparr>,
             ''Reload Window to finish disabling C++ snippets'')))"

definition onToggleSnippets :: "env \<Rightarrow> proc" where
  "onToggleSnippets e s =
     chain
       [onActivationEvent e,
        \<lambda>s. let (m, msg) = toggleSnippets (packageJson s)
             in returns (emit [WriteFile_packageJson m msg] (s\<lparr>packageJson := m\<rparr>))]
       s"

definition onToggleIncludeFallback :: "env \<Rightarrow> proc" where
  "onToggleIncludeFallback e s =
     chain
       [onActivationEvent e,
        \<lambda>s. case clients s of
               None \<Rightarrow> throws TypeError s
             | Some cc \<Rightarrow>
                 returns (emit [Settings_toggleSetting (ActiveClient cc)
                                  ''intelliSenseEngineFallback'' ''Enabled'' ''Disabled''] s)]
       s"

definition onToggleDimInactiveRegions :: "env \<Rightarrow> proc" where
  "onToggleDimInactiveRegions e s =
     chain
       [onActivationEvent e,
        \<lambda>s. case clients s of
               None \<Rightarrow> throws TypeError s
             | Some cc \<Rightarrow> returns (emit [Settings_update_dimInactiveRegions (ActiveClient cc)] s)]
       s"

definition onShowReleaseNotes :: "env \<Rightarrow> proc" where
  "onShowReleaseNotes e s =
     chain [onActivationEvent e, \<lambda>s. returns (emit [ShowReleaseNotes] s)] s"

definition onPauseParsing :: "env \<Rightarrow> proc" where
  "onPauseParsing e s = chain [onActivationEvent e, selectClient_then PauseParsing e] s"

definition onResumeParsing :: "env \<Rightarrow> proc" where
  "onResumeParsing e s = chain [onActivationEvent e, selectClient_then ResumeParsing e] s"

definition onShowParsingCommands :: "env \<Rightarrow> proc" where
  "onShowParsingCommands e s =
     chain [onActivationEvent e, selectClient_then HandleShowParsingCommands e] s"

definition onTakeSurvey :: "env \<Rightarrow> proc" where
  "onTakeSurvey e s =
     chain [onActivationEvent e,
            \<lambda>s. returns (emit [LogLanguageServerEvent ''onTakeSurvey'', OpenSurvey] s)] s"

text \<open>The table of \<^verbatim>\<open>registerCommands\<close>: the handler registered under each
  identifier. Only \<^verbatim>\<open>C_Cpp.AddToIncludePath\<close> passes its argument on.\<close>

fun commandHandler :: "command \<Rightarrow> string \<Rightarrow> env \<Rightarrow> proc" where
  "commandHandler Navigate arg = onNavigate"
| "commandHandler GoToDeclaration arg = onGoToDeclaration"
| "commandHandler PeekDeclaration arg = onPeekDeclaration"
| "commandHandler SwitchHeaderSource arg = onSwitchHeaderSource"
| "commandHandler ResetDatabaseCmd arg = onResetDatabase"
| "commandHandler ConfigurationSelect arg = onSelectConfiguration"
| "commandHandler ConfigurationProviderSelect arg = onSelectConfigurationProvider"
| "commandHandler ConfigurationEdit arg = onEditConfiguration"
| "commandHandler AddToIncludePath arg = onAddToIncludePath arg"
| "commandHandler ToggleErrorSquiggles arg = onToggleSquiggles"
| "commandHandler ToggleSnippets arg = onToggleSnippets"
| "commandHandler ToggleIncludeFallback arg = onToggleIncludeFallback"
| "commandHandler ToggleDimInactiveRegions arg = onToggleDimInactiveRegions"
| "commandHandler ShowReleaseNotesCmd arg = onShowReleaseNotes"
| "commandHandler PauseParsingCmd arg = onPauseParsing"
| "commandHandler ResumeParsingCmd arg = onResumeParsing"
| "commandHandler ShowParsingCommands arg = onShowParsingCommands"
| "commandHandler TakeSurvey arg = onTakeSurvey"

subsection \<open>Selection changes\<close>

record textEditorSelectionChangeEvent =
  textEditor :: "textEditor option"
  selections :: "position list"

definition onDidChangeTextEditorSelection :: "textEditorSelectionChangeEvent \<Rightarrow> env \<Rightarrow> proc" where
  "onDidChangeTextEditorSelection ev e s =
     (case textEditor ev of
        None \<Rightarrow> returns s
      | Some ed \<Rightarrow>
          (case activeTextEditor e of
             None \<Rightarrow> returns s
           | Some activeEditor \<Rightarrow>
               if uri_object (doc_uri (document ed)) \<noteq> uri_object (doc_uri (document activeEditor))
                  \<or> (languageId (document ed) \<noteq> ''cpp'' \<and> languageId (document ed) \<noteq> ''c'')
               then returns s
               else
                 chain
                   [\<lambda>s. if activeDocument s \<noteq> Some (uri_toString (doc_uri (document ed)))
                        then
                          (let s1 = s\<lparr>activeDocument := Some (uri_toString (doc_uri (document ed)))\<rparr>
                           in case clients s1 of
                                None \<Rightarrow> throws TypeError s1
                              | Some cc \<Rightarrow>
                                  ui_activeDocumentChanged
                                    (emit [Clients_activeDocumentChanged (document ed)]
                                       (s1\<lparr>clients := Some (activeDocumentChanged e (document ed) cc)\<rparr>)))
                        else returns s,
                    \<lambda>s. case clients s of
                           None \<Rightarrow> throws TypeError s
                         | Some cc \<Rightarrow>
                             (case selections ev of
                                [] \<Rightarrow> throws TypeError s
                              | p # ps \<Rightarrow>
                                  returns (emit [Client_selectionChanged (ActiveClient cc) p] s))]
                   s))"

subsection \<open>The host's events\<close>

datatype event =
    Activate bool
  | DidOpenTextDocument textDocument
  | ExecuteCommand command string
  | GetClients
  | GetActiveClient
  | DidChangeActiveTextEditor "textEditor option"
  | DidChangeTextEditorSelection textEditorSelectionChangeEvent

text \<open>The host calls every listener that is subscribed when the event fires, and
  goes on after a listener that throws.\<close>

fun deliver :: "proc list \<Rightarrow> state \<Rightarrow> state" where
  "deliver [] s = s"
| "deliver (f # fs) s = deliver fs (snd (f s))"

definition subscribers :: "disposable \<Rightarrow> disposable list \<Rightarrow> proc \<Rightarrow> proc list" where
  "subscribers d ds f = map (\<lambda>x. f) (filter (\<lambda>x. x = d) ds)"

fun fire :: "env \<Rightarrow> event \<Rightarrow> state \<Rightarrow> state" where
  "fire e (Activate b) s = snd (activate b e s)"
| "fire e (DidOpenTextDocument d) s =
     deliver (subscribers Sub_onDidOpenTextDocument (tempCommands s) (onDidOpenTextDocument d e)) s"
| "fire e (ExecuteCommand c arg) s =
     (if Command (commandId c) \<in> set (disposables s) then snd (commandHandler c arg e s) else s)"
| "fire e GetClients s = snd (fst (getClients e s))"
| "fire e GetActiveClient s = snd (fst (getActiveClient e s))"
| "fire e (DidChangeActiveTextEditor ed) s =
     deliver (subscribers Sub_onDidChangeActiveTextEditor (disposables s)
                (onDidChangeActiveTextEditor ed e)) s"
| "fire e (DidChangeTextEditorSelection ev) s =
     deliver (subscribers Sub_onDidChangeTextEditorSelection (disposables s)
                (onDidChangeTextEditorSelection ev e)) s"

fun run :: "(env \<times> event) list \<Rightarrow> state \<Rightarrow> state" where
  "run [] s = s"
| "run ((e, ev) # evs) s = run evs (fire e ev s)"

text \<open>How often full activation ran: each run constructs the client collection
  and starts the heartbeat timer.\<close>

definition realActivations :: "state \<Rightarrow> nat" where
  "realActivations s = count_list (effects s) New_ClientCollection"

definition heartbeatTimers :: "state \<Rightarrow> nat" where
  "heartbeatTimers s = count_list (effects s) (SetInterval (Interval_onInterval 2500))"

subsection \<open>Downloads and the self-update check\<close>

type_synonym headers = "(string \<times> string) list"

datatype location = Location_string string | Location_array "string list" | Location_undefined

text \<open>What the server answers to one request: a socket error, or a status code,
  a \<^verbatim>\<open>Location\<close> header and whether the body arrives without an
  \<^verbatim>\<open>'error'\<close> event. The answer may depend on the request's headers.\<close>

datatype response = RequestError | Response nat location bool

type_synonym network = "string \<Rightarrow> headers option \<Rightarrow> response"

datatype download_result = Download_resolved | Download_rejected | Download_uncaught error | OutOfFuel

text \<open>
  \<^verbatim>\<open>downloadFileToDestination\<close> calls itself on every redirect, so a server that
  redirects forever keeps it running forever; the first argument bounds the number of
  requests. The result lists the requests issued, each with the headers it carried
  (\<open>None\<close> for \<^verbatim>\<open>undefined\<close>), and says how the returned promise settles.
  A redirect with no \<^verbatim>\<open>Location\<close> header throws inside the response
  callback, which leaves the promise unsettled; an empty \<^verbatim>\<open>Location\<close> array
  makes \<^verbatim>\<open>url.parse\<close> throw inside the inner promise's executor, which rejects it.
\<close>

fun downloadFileToDestination ::
  "nat \<Rightarrow> network \<Rightarrow> string \<Rightarrow> string \<Rightarrow> headers option
     \<Rightarrow> (string \<times> headers option) list \<times> download_result" where
  "downloadFileToDestination 0 net urlStr destinationPath hdrs = ([], OutOfFuel)"
| "downloadFileToDestination (Suc n) net urlStr destinationPath hdrs =
     (case net urlStr hdrs of
        RequestError \<Rightarrow> ([(urlStr, hdrs)], Download_rejected)
      | Response statusCode loc body_ok \<Rightarrow>
          if statusCode = 301 \<or> statusCode = 302 then
            (case loc of
               Location_undefined \<Rightarrow> ([(urlStr, hdrs)], Download_uncaught TypeError)
             | Location_array [] \<Rightarrow> ([(urlStr, hdrs)], Download_rejected)
             | Location_array (redirectUrl # others) \<Rightarrow>
                 (let r = downloadFileToDestination n net redirectUrl destinationPath None
                  in ((urlStr, hdrs) # fst r, snd r))
             | Location_string redirectUrl \<Rightarrow>
                 (let r = downloadFileToDestination n net redirectUrl destinationPath None
                  in ((urlStr, hdrs) # fst r, snd r)))
          else if statusCode \<noteq> 200 then ([(urlStr, hdrs)], Download_rejected)
          else if body_ok then ([(urlStr, hdrs)], Download_resolved)
          else ([(urlStr, hdrs)], Download_rejected))"

record asset =
  asset_name :: string
  browser_download_url :: string

record release =
  release_name :: string
  assets :: "asset list"

record platformInformation =
  platform :: string
  architecture :: string

text \<open>What \<^verbatim>\<open>checkAndApplyUpdate\<close> reads: the running package's version, the
  network, the release list that \<^verbatim>\<open>parseJsonAtPath\<close> yields for the downloaded
  file (\<open>None\<close> when it yields \<^verbatim>\<open>undefined\<close>), the platform, and the paths.
  The manifest's \<^verbatim>\<open>name\<close> fields are taken to be strings.\<close>

record updateEnv =
  packageJson_version :: string
  net :: network
  fuel :: nat
  parsedJson :: "release list option"
  platformInfo :: platformInformation
  getExtensionFilePath :: "string \<Rightarrow> string"
  vscodeProcessPath :: string
  join3 :: "string \<Rightarrow> string \<Rightarrow> string \<Rightarrow> string"

datatype update_stop = NoVersion | NoLatestBuild | UpToDate | NoVsixName | NoDownloadUrl | NoCommandFile

datatype update_result =
    Update_returns update_stop
  | Update_rejects
  | Update_unsettled
  | Update_exec string

text \<open>The current version: the package version with an \<^verbatim>\<open>-insiders\<close> suffix
  stripped; \<open>None\<close> (\<^verbatim>\<open>null\<close>) for any other suffix.\<close>

definition currentVersion :: "string \<Rightarrow> string option" where
  "currentVersion version =
     (let dashOffset = indexOf version (CHR ''-'') in
      if dashOffset \<noteq> - 1 then
        (if drop (nat (dashOffset + 1)) version \<noteq> ''insiders'' then None
         else Some (take (nat dashOffset) version))
      else Some version)"

definition vsixName :: "platformInformation \<Rightarrow> string option" where
  "vsixName info =
     (if platform info = ''linux'' then
        (if architecture info = ''x86_64'' then Some ''cpptools-linux.vsix''
         else if architecture info = ''x86'' then Some ''cpptools-linux32.vsix''
         else None)
      else None)"

definition vsCodeCommandFile :: "updateEnv \<Rightarrow> string" where
  "vsCodeCommandFile u =
     (if platform (platformInfo u) = ''windows''
      then join3 u (vscodeProcessPath u) ''bin'' ''code.cmd''
      else vscodeProcessPath u)"

text \<open>JavaScript's \<^verbatim>\<open>>=\<close> on two strings compares them code unit by code
  unit, a proper prefix being the smaller: on ASCII strings, as version strings and
  release names are, the lexicographic order on \<open>string\<close>.\<close>

definition checkAndApplyUpdate :: "updateEnv \<Rightarrow> update_result" where
  "checkAndApplyUpdate u =
     (case currentVersion (packageJson_version u) of
        None \<Rightarrow> Update_returns NoVersion
      | Some version \<Rightarrow>
          if version = '''' then Update_returns NoVersion
          else
            (case snd (downloadFileToDestination (fuel u) (net u)
                         ''https://api.github.com/repos/Microsoft/vscode-cpptools/releases''
                         (getExtensionFilePath u ''releases.json'')
                         (Some [(''User-Agent'', ''vscode-cpptools'')])) of
               Download_rejected \<Rightarrow> Update_rejects
             | Download_uncaught err \<Rightarrow> Update_unsettled
             | OutOfFuel \<Rightarrow> Update_unsettled
             | Download_resolved \<Rightarrow>
                 (case parsedJson u of
                    None \<Rightarrow> Update_rejects
                  | Some [] \<Rightarrow> Update_returns NoLatestBuild
                  | Some (latestBuild # older) \<Rightarrow>
                      if version \<ge> release_name latestBuild then Update_returns UpToDate
                      else
                        (case vsixName (platformInfo u) of
                           None \<Rightarrow> Update_returns NoVsixName
                         | Some vsix \<Rightarrow>
                             (case find (\<lambda>a. asset_name a = vsix) (assets latestBuild) of
                                None \<Rightarrow> Update_rejects
                              | Some a \<Rightarrow>
                                  if browser_download_url a = '''' then Update_returns NoDownloadUrl
                                  else
                                    (case snd (downloadFileToDestination (fuel u) (net u)
                                                 (browser_download_url a)
                                                 (getExtensionFilePath u vsix) None) of
                                       Download_rejected \<Rightarrow> Update_rejects
                                     | Download_uncaught err \<Rightarrow> Update_unsettled
                                     | OutOfFuel \<Rightarrow> Update_unsettled
                                     | Download_resolved \<Rightarrow>
                                         if vsCodeCommandFile u = ''''
                                         then Update_returns NoCommandFile
                                         else Update_exec
                                                (vsCodeCommandFile u @ '' --install-extension ''
                                                   @ getExtensionFilePath u vsix)))))))"

subsection \<open>Example inputs\<close>

definition w_client :: client where
  "w_client = \<lparr>Name = ''w'', RootPath = ''/w''\<rparr>"

definition dormantEnv :: env where
  "dormantEnv =
     \<lparr>workspaceFolders = Some [\<lparr>fsPath = ''/w''\<rparr>],
      textDocuments = Some [],
      activeTextEditor = None,
      existsSync = (\<lambda>p. False),
      path_join = (\<lambda>a b. a @ ''/'' @ b),
      path_dirname = (\<lambda>p. p),
      customConfigProviders = [],
      newClientCollection = \<lparr>languageClients = [(''w'', w_client)], ActiveClient = w_client\<rparr>,
      activeDocumentChanged = (\<lambda>d cc. cc),
      showWorkspaces = (\<lambda>names. ''''),
      process_platform = ''linux''\<rparr>"

definition emptyManifest :: manifest where
  "emptyManifest = \<lparr>categories = [], contributes_snippets = None\<rparr>"


definition uriB :: uri where
  "uriB = \<lparr>uri_object = 2, uri_toString = ''file:///w/b.cpp''\<rparr>"


definition docB :: textDocument where
  "docB = \<lparr>doc_uri = uriB, languageId = ''cpp'', fileName = ''/w/b.cpp''\<rparr>"

text \<open>The state of a dormant extension: \<^verbatim>\<open>activate(false)\<close> has run in a workspace
  with no configuration file and no C or C++ document, nothing persisted.\<close>

definition dormantState :: state where
  "dormantState = snd (activate False dormantEnv (init False emptyManifest))"

definition clientA :: client where
  "clientA = \<lparr>Name = ''a'', RootPath = ''/a''\<rparr>"

definition clientB :: client where
  "clientB = \<lparr>Name = ''b'', RootPath = ''/b''\<rparr>"

definition twoClients :: clientCollection where
  "twoClients = \<lparr>languageClients = [(''a'', clientA), (''b'', clientB)], ActiveClient = clientA\<rparr>"

text \<open>A workspace of two folders in which the user answers the picker with \<open>key\<close>.\<close>

definition pickerEnv :: "string \<Rightarrow> env" where
  "pickerEnv key = dormantEnv\<lparr>newClientCollection := twoClients, showWorkspaces := (\<lambda>names. key)\<rparr>"

text \<open>The state after \<^verbatim>\<open>activate(true)\<close> in a fresh process.\<close>

definition activeState :: "env \<Rightarrow> state" where
  "activeState e = snd (activate True e (init False emptyManifest))"






text \<open>A Linux host whose package version is \<open>current\<close> and whose release list
  starts with a release named \<open>latest\<close>; every request is answered with 200.\<close>

definition updateExample :: "string \<Rightarrow> string \<Rightarrow> updateEnv" where
  "updateExample current latest =
     \<lparr>packageJson_version = current,
      net = (\<lambda>u h. Response 200 Location_undefined True),
      fuel = 3,
      parsedJson = Some [\<lparr>release_name = latest,
                          assets = [\<lparr>asset_name = ''cpptools-linux.vsix'',
                                     browser_download_url = ''https://host/cpptools-linux.vsix''\<rparr>]\<rparr>],
      platformInfo = \<lparr>platform = ''linux'', architecture = ''x86_64''\<rparr>,
      getExtensionFilePath = (\<lambda>f. ''/ext/'' @ f),
      vscodeProcessPath = ''/usr/share/code'',
      join3 = (\<lambda>a b c. a @ ''/'' @ b @ ''/'' @ c)\<rparr>"

text \<open>A manifest without the snippets category that still carries a snippets node.\<close>

definition staleManifest :: manifest where
  "staleManifest = \<lparr>categories = [''Programming Languages''],
                     contributes_snippets = Some [(''cpp'', ''./cpp_snippets.json'')]\<rparr>"

text \<open>A server that redirects the first address to a second one, which it serves.\<close>

definition redirectingNet :: network where
  "redirectingNet u h =
     (if u = ''https://host/latest'' then Response 302 (Location_string ''https://cdn/file'') True
      else Response 200 Location_undefined True)"

subsection \<open>Notions used in the proofs\<close>

text \<open>The first steps of \<^verbatim>\<open>activate\<close>: the state after the persisted fast
  path, and the state after the commands and the temporary watcher are registered.\<close>

definition afterFastPath :: "env \<Rightarrow> state \<Rightarrow> state" where
  "afterFastPath e s =
     (if activatedPreviously_Value s
      then snd (realActivation e (s\<lparr>activatedPreviously_bound := True, activatedPreviously_Value := False\<rparr>))
      else s\<lparr>activatedPreviously_bound := True\<rparr>)"

definition watching :: "env \<Rightarrow> state \<Rightarrow> state" where
  "watching e s =
     (registerCommands (afterFastPath e s))
       \<lparr>tempCommands := tempCommands (afterFastPath e s) @ [Sub_onDidOpenTextDocument]\<rparr>"

text \<open>The part of the state the activation gate depends on, with the number of full
  activations so far.\<close>

definition gate :: "state \<Rightarrow> bool \<times> disposable list \<times> bool \<times> bool \<times> nat" where
  "gate s = (realActivationOccurred s, tempCommands s, activatedPreviously_bound s,
             activatedPreviously_Value s, realActivations s)"

text \<open>Two invariants: once \<^verbatim>\<open>activate\<close> has run, no temporary watcher is
  left only if full activation has occurred; and full activation has run once if it
  has occurred, and never otherwise.\<close>

definition watcherInv :: "state \<Rightarrow> bool" where
  "watcherInv s = (activatedPreviously_bound s \<and> (tempCommands s = [] \<longrightarrow> realActivationOccurred s))"

definition onceInv :: "state \<Rightarrow> bool" where
  "onceInv s = (realActivations s = (if realActivationOccurred s then 1 else 0))"

fun isActivate :: "event \<Rightarrow> bool" where
  "isActivate (Activate b) = True"
| "isActivate ev = False"

section \<open>Lemmas\<close>

lemmas act_defs = realActivation_def returns_def throws_def emit_def Let_def
      onDidChangeActiveTextEditor_def ui_activeDocumentChanged_def registerProviders_def
      updateLanguageConfigurations_def reportMacCrashes_def

lemma realActivation_returns: "fst (realActivation e s) = None"
  by (simp add: act_defs split: option.splits prod.splits if_splits)

lemma not_in_providers:
  "(\<And>c p. x \<noteq> Client_onRegisterCustomConfigurationProvider c p) \<Longrightarrow>
   count_list (concat (map (\<lambda>c. map (Client_onRegisterCustomConfigurationProvider c) ps) cs)) x = 0"
  by (auto simp add: count_list_0_iff)

lemma not_in_map_dlc:
  "(\<And>l. x \<noteq> Dispose_languageConfiguration l) \<Longrightarrow>
   count_list (map Dispose_languageConfiguration ls) x = 0"
  by (auto simp add: count_list_0_iff)

lemma realActivation_clients:
  "clients (snd (realActivation e s)) \<noteq> None \<and> ui (snd (realActivation e s)) \<noteq> None"
  by (simp add: act_defs split: option.splits prod.splits if_splits)

lemma realActivation_count:
  "realActivations (snd (realActivation e s)) = Suc (realActivations s)"
  by (simp add: realActivations_def act_defs not_in_providers not_in_map_dlc split: option.splits prod.splits if_splits)

lemma realActivation_timer:
  "heartbeatTimers (snd (realActivation e s)) = Suc (heartbeatTimers s)"
  by (simp add: heartbeatTimers_def act_defs not_in_providers not_in_map_dlc split: option.splits prod.splits if_splits)

lemma realActivation_no_dispose:
  "count_list (effects (snd (realActivation e s))) (Dispose d) = count_list (effects s) (Dispose d)"
  by (simp add: act_defs not_in_providers not_in_map_dlc split: option.splits prod.splits if_splits)

lemma not_in_map_dispose:
  "(\<And>d. x \<noteq> Dispose d) \<Longrightarrow> count_list (map Dispose ds) x = 0"
  by (auto simp add: count_list_0_iff)

lemma realActivation_gate:
  "realActivationOccurred (snd (realActivation e s))
   \<and> tempCommands (snd (realActivation e s)) = tempCommands s
   \<and> activatedPreviously_Value (snd (realActivation e s)) = activatedPreviously_Value s
   \<and> activatedPreviously_bound (snd (realActivation e s)) = activatedPreviously_bound s"
  by (simp add: act_defs split: option.splits prod.splits if_splits)

lemma realActivationD:
  "realActivation e s = (x, r) \<Longrightarrow>
     x = None \<and> realActivationOccurred r \<and> tempCommands r = tempCommands s
     \<and> activatedPreviously_Value r = activatedPreviously_Value s
     \<and> activatedPreviously_bound r = activatedPreviously_bound s
     \<and> realActivations r = Suc (realActivations s)
     \<and> heartbeatTimers r = Suc (heartbeatTimers s)
     \<and> clients r \<noteq> None \<and> ui r \<noteq> None"
  using realActivation_returns[of e s] realActivation_gate[of e s] realActivation_count[of e s]
    realActivation_timer[of e s] realActivation_clients[of e s]
  by simp

lemma onActivationEvent_idle: "tempCommands s = [] \<Longrightarrow> onActivationEvent e s = (None, s)"
  by (simp add: onActivationEvent_def returns_def)

lemma onActivationEvent_fires:
  assumes "tempCommands s \<noteq> []" "activatedPreviously_bound s"
  shows "fst (onActivationEvent e s) = None"
    and "tempCommands (snd (onActivationEvent e s)) = []"
    and "realActivationOccurred (snd (onActivationEvent e s))"
    and "activatedPreviously_Value (snd (onActivationEvent e s))"
    and "activatedPreviously_bound (snd (onActivationEvent e s))"
    and "realActivations (snd (onActivationEvent e s))
           = (if realActivationOccurred s then realActivations s else Suc (realActivations s))"
    and "heartbeatTimers (snd (onActivationEvent e s))
           = (if realActivationOccurred s then heartbeatTimers s else Suc (heartbeatTimers s))"
  using assms
  by (auto simp add: onActivationEvent_def returns_def throws_def emit_def realActivations_def
        heartbeatTimers_def not_in_map_dispose
      dest!: realActivationD split: option.splits prod.splits if_splits)

lemma activate_unfold:
  "activate b e s =
     (if b \<or> scanFolders e \<or> scanDocuments e then onActivationEvent e (watching e s)
      else (None, watching e s))"
  using realActivation_returns[of e "s\<lparr>activatedPreviously_bound := True, activatedPreviously_Value := False\<rparr>"]
  by (auto simp add: activate_def watching_def afterFastPath_def returns_def registerCommands_def
      split: prod.splits option.splits)

lemma afterFastPath_gate:
  "activatedPreviously_bound (afterFastPath e s)"
  "\<not> activatedPreviously_Value (afterFastPath e s)"
  "tempCommands (afterFastPath e s) = tempCommands s"
  "realActivationOccurred (afterFastPath e s) = (realActivationOccurred s \<or> activatedPreviously_Value s)"
  "realActivations (afterFastPath e s) = realActivations s + (if activatedPreviously_Value s then 1 else 0)"
  "heartbeatTimers (afterFastPath e s) = heartbeatTimers s + (if activatedPreviously_Value s then 1 else 0)"
  using realActivation_gate[of e "s\<lparr>activatedPreviously_bound := True, activatedPreviously_Value := False\<rparr>"]
    realActivation_count[of e "s\<lparr>activatedPreviously_bound := True, activatedPreviously_Value := False\<rparr>"]
    realActivation_timer[of e "s\<lparr>activatedPreviously_bound := True, activatedPreviously_Value := False\<rparr>"]
  by (auto simp add: afterFastPath_def realActivations_def heartbeatTimers_def)

lemma watching_gate:
  "activatedPreviously_bound (watching e s)"
  "\<not> activatedPreviously_Value (watching e s)"
  "tempCommands (watching e s) = tempCommands s @ [Sub_onDidOpenTextDocument]"
  "realActivationOccurred (watching e s) = (realActivationOccurred s \<or> activatedPreviously_Value s)"
  "realActivations (watching e s) = realActivations s + (if activatedPreviously_Value s then 1 else 0)"
  "heartbeatTimers (watching e s) = heartbeatTimers s + (if activatedPreviously_Value s then 1 else 0)"
  using afterFastPath_gate[of e s]
  by (auto simp add: watching_def registerCommands_def realActivations_def heartbeatTimers_def)

lemma activate_gate:
  shows "fst (activate b e s) = None"
    and "activatedPreviously_bound (snd (activate b e s))"
    and "activatedPreviously_Value (snd (activate b e s)) = (b \<or> scanFolders e \<or> scanDocuments e)"
    and "tempCommands (snd (activate b e s))
           = (if b \<or> scanFolders e \<or> scanDocuments e then [] else tempCommands s @ [Sub_onDidOpenTextDocument])"
    and "realActivationOccurred (snd (activate b e s))
           = (realActivationOccurred s \<or> activatedPreviously_Value s \<or> b \<or> scanFolders e \<or> scanDocuments e)"
    and "realActivations (snd (activate b e s))
           = realActivations s + (if activatedPreviously_Value s then 1 else 0)
             + (if (b \<or> scanFolders e \<or> scanDocuments e) \<and> \<not> activatedPreviously_Value s
                   \<and> \<not> realActivationOccurred s then 1 else 0)"
    and "heartbeatTimers (snd (activate b e s))
           = heartbeatTimers s + (if activatedPreviously_Value s then 1 else 0)
             + (if (b \<or> scanFolders e \<or> scanDocuments e) \<and> \<not> activatedPreviously_Value s
                   \<and> \<not> realActivationOccurred s then 1 else 0)"
  using onActivationEvent_fires[of "watching e s" e] watching_gate[of e s]
  by (auto simp add: activate_unfold)

lemma chain_single: "chain [g] s = g s"
  by (cases "g s"; cases "fst (g s)") auto

lemma snd_chain2:
  "snd (chain [f, g] s) = (case fst (f s) of None \<Rightarrow> snd (g (snd (f s))) | Some x \<Rightarrow> snd (f s))"
  by (cases "f s"; cases "g (snd (f s))") (auto split: option.splits)

lemma chain2_gate:
  assumes "\<And>s. gate (snd (g s)) = gate s"
  shows "gate (snd (chain [f, g] s)) = gate (snd (f s))"
  using assms[of "snd (f s)"] by (simp add: snd_chain2 del: chain.simps split: option.splits)

lemma ActiveClient_call_gate: "gate (snd (ActiveClient_call req s)) = gate s"
  by (simp add: ActiveClient_call_def gate_def realActivations_def returns_def throws_def emit_def
      split: option.splits)

lemma selectClient_then_gate: "gate (snd (selectClient_then req e s)) = gate s"
  by (simp add: selectClient_then_def selectClient_def gate_def realActivations_def returns_def
      throws_def emit_def Let_def split: option.splits promise.splits sum.splits prod.splits)

lemma emit_gate: "New_ClientCollection \<notin> set es \<Longrightarrow> gate (emit es s) = gate s"
  by (simp add: gate_def realActivations_def emit_def)

lemma returns_gate: "gate (snd (returns s)) = gate s"
  by (simp add: returns_def)

lemma throws_gate: "gate (snd (throws x s)) = gate s"
  by (simp add: throws_def)

lemmas frame = ActiveClient_call_gate selectClient_then_gate emit_gate returns_gate throws_gate

lemma onAddToIncludePath_gate: "gate (snd (onAddToIncludePath p e s)) = gate s"
  by (simp add: onAddToIncludePath_def frame)

lemma toggle_gate:
  "gate (snd (case toggleSnippets (packageJson s) of
               (m, msg) \<Rightarrow> returns (emit [WriteFile_packageJson m msg] (s\<lparr>packageJson := m\<rparr>)))) = gate s"
  by (simp add: gate_def realActivations_def returns_def emit_def split: prod.splits)

lemma commandHandler_gate:
  "c \<noteq> AddToIncludePath \<Longrightarrow> gate (snd (commandHandler c arg e s)) = gate (snd (onActivationEvent e s))"
proof (cases c)
  case Navigate
  then show ?thesis
    by (simp only: commandHandler.simps onNavigate_def)
       (rule chain2_gate, simp add: frame split: option.splits)
next
  case GoToDeclaration
  then show ?thesis
    by (simp only: commandHandler.simps onGoToDeclaration_def) (rule chain2_gate, simp add: frame)
next
  case PeekDeclaration
  then show ?thesis
    by (simp only: commandHandler.simps onPeekDeclaration_def) (rule chain2_gate, simp add: frame)
next
  case SwitchHeaderSource
  then show ?thesis
    by (simp only: commandHandler.simps onSwitchHeaderSource_def)
       (rule chain2_gate, simp add: frame Let_def split: option.splits)
next
  case ResetDatabaseCmd
  then show ?thesis
    by (simp only: commandHandler.simps onResetDatabase_def) (rule chain2_gate, simp add: frame)
next
  case ConfigurationSelect
  then show ?thesis
    by (simp only: commandHandler.simps onSelectConfiguration_def) (rule chain2_gate, simp add: frame)
next
  case ConfigurationProviderSelect
  then show ?thesis
    by (simp only: commandHandler.simps onSelectConfigurationProvider_def)
       (rule chain2_gate, simp add: frame)
next
  case ConfigurationEdit
  then show ?thesis
    by (simp only: commandHandler.simps onEditConfiguration_def) (rule chain2_gate, simp add: frame)
next
  case AddToIncludePath
  assume "c \<noteq> AddToIncludePath"
  with AddToIncludePath show ?thesis by simp
next
  case ToggleErrorSquiggles
  then show ?thesis
    by (simp only: commandHandler.simps onToggleSquiggles_def)
       (rule chain2_gate, simp add: frame split: option.splits)
next
  case ToggleSnippets
  then show ?thesis
    by (simp only: commandHandler.simps onToggleSnippets_def Let_def)
       (rule chain2_gate, rule toggle_gate)
next
  case ToggleIncludeFallback
  then show ?thesis
    by (simp only: commandHandler.simps onToggleIncludeFallback_def)
       (rule chain2_gate, simp add: frame split: option.splits)
next
  case ToggleDimInactiveRegions
  then show ?thesis
    by (simp only: commandHandler.simps onToggleDimInactiveRegions_def)
       (rule chain2_gate, simp add: frame split: option.splits)
next
  case ShowReleaseNotesCmd
  then show ?thesis
    by (simp only: commandHandler.simps onShowReleaseNotes_def) (rule chain2_gate, simp add: frame)
next
  case PauseParsingCmd
  then show ?thesis
    by (simp only: commandHandler.simps onPauseParsing_def) (rule chain2_gate, simp add: frame)
next
  case ResumeParsingCmd
  then show ?thesis
    by (simp only: commandHandler.simps onResumeParsing_def) (rule chain2_gate, simp add: frame)
next
  case ShowParsingCommands
  then show ?thesis
    by (simp only: commandHandler.simps onShowParsingCommands_def) (rule chain2_gate, simp add: frame)
next
  case TakeSurvey
  then show ?thesis
    by (simp only: commandHandler.simps onTakeSurvey_def) (rule chain2_gate, simp add: frame)
qed

lemma gate_watcherInv: "gate s' = gate s \<Longrightarrow> watcherInv s' = watcherInv s"
  by (simp add: gate_def watcherInv_def)

lemma onActivationEvent_watcherInv: "watcherInv s \<Longrightarrow> watcherInv (snd (onActivationEvent e s))"
  using onActivationEvent_fires[of s e] onActivationEvent_idle[of s e]
  by (cases "tempCommands s = []") (auto simp add: watcherInv_def)

lemma onDidChangeActiveTextEditor_gate: "gate (snd (onDidChangeActiveTextEditor ed e s)) = gate s"
  by (simp add: onDidChangeActiveTextEditor_def ui_activeDocumentChanged_def gate_def
      realActivations_def returns_def throws_def emit_def Let_def split: option.splits)

lemma onDidChangeTextEditorSelection_gate: "gate (snd (onDidChangeTextEditorSelection ev e s)) = gate s"
  by (simp add: onDidChangeTextEditorSelection_def ui_activeDocumentChanged_def gate_def
      realActivations_def returns_def throws_def emit_def Let_def
      split: option.splits list.splits prod.splits)

lemma deliver_preserves:
  "(\<And>f s. f \<in> set fs \<Longrightarrow> P s \<Longrightarrow> P (snd (f s))) \<Longrightarrow> P s \<Longrightarrow> P (deliver fs s)"
  by (induction fs arbitrary: s) auto

lemma getActiveClient_aux:
  "snd (fst (case fst r of
               Some err \<Rightarrow> (r, None)
             | None \<Rightarrow>
                 (case clients (snd r) of
                    None \<Rightarrow> ((Some TypeError, snd r), None)
                  | Some cc \<Rightarrow> (r, Some (ActiveClient cc))))) = snd r"
  by (simp split: option.splits)

lemma getActiveClient_state:
  "snd (fst (getActiveClient e s))
     = snd (if \<not> realActivationOccurred s then realActivation e s else returns s)"
  unfolding getActiveClient_def Let_def by (rule getActiveClient_aux)

lemma getClients_state:
  "snd (fst (getClients e s))
     = snd (if \<not> realActivationOccurred s then realActivation e s else returns s)"
  by (simp add: getClients_def Let_def)




lemma dormantEnv_scans: "\<not> scanFolders dormantEnv" "\<not> scanDocuments dormantEnv"
  "isFolderOpen dormantEnv"
  by (simp_all add: scanFolders_def scanDocuments_def dormantEnv_def isFolderOpen_def nonEmpty_def)

lemma init_fields:
  "realActivationOccurred (init p m) = False" "tempCommands (init p m) = []"
  "activatedPreviously_Value (init p m) = p" "activatedPreviously_bound (init p m) = False"
  "realActivations (init p m) = 0" "heartbeatTimers (init p m) = 0" "clients (init p m) = None"
  by (simp_all add: init_def realActivations_def heartbeatTimers_def)

lemma activate_dormant:
  "\<not> b \<Longrightarrow> \<not> scanFolders e \<Longrightarrow> \<not> scanDocuments e \<Longrightarrow> \<not> activatedPreviously_Value s \<Longrightarrow>
   activate b e s = (None, (registerCommands (s\<lparr>activatedPreviously_bound := True\<rparr>))
                      \<lparr>tempCommands := tempCommands s @ [Sub_onDidOpenTextDocument]\<rparr>)"
  by (simp add: activate_def returns_def registerCommands_def)

lemma realActivation_quiet:
  "\<not> nonEmpty (textDocuments e) \<Longrightarrow>
   clients (snd (realActivation e s)) = Some (newClientCollection e)
   \<and> ui (snd (realActivation e s)) = Some UI
   \<and> activeDocument (snd (realActivation e s)) = activeDocument s"
  by (simp add: act_defs split: option.splits prod.splits if_splits)

lemma onActivationEvent_quiet:
  assumes "tempCommands s \<noteq> []" "activatedPreviously_bound s" "\<not> realActivationOccurred s"
    "\<not> nonEmpty (textDocuments e)"
  shows "clients (snd (onActivationEvent e s)) = Some (newClientCollection e)
         \<and> ui (snd (onActivationEvent e s)) = Some UI
         \<and> activeDocument (snd (onActivationEvent e s)) = activeDocument s"
proof -
  define s1 where "s1 = (emit (map Dispose (tempCommands s)) s)\<lparr>tempCommands := []\<rparr>"
  obtain x r where r: "realActivation e s1 = (x, r)" by (cases "realActivation e s1")
  have x: "x = None" and b: "activatedPreviously_bound r"
    using realActivationD[OF r] assms by (simp_all add: s1_def emit_def)
  have q: "clients r = Some (newClientCollection e) \<and> ui r = Some UI \<and> activeDocument r = activeDocument s"
    using realActivation_quiet[OF assms(4), of s1] r by (simp add: s1_def emit_def)
  have "onActivationEvent e s = (None, r\<lparr>activatedPreviously_Value := True\<rparr>)"
    using assms r x b by (simp add: onActivationEvent_def returns_def s1_def emit_def)
  then show ?thesis using q by simp
qed

lemma activate_quiet:
  assumes "\<not> nonEmpty (textDocuments e)"
  shows "clients (snd (activate True e (init False m))) = Some (newClientCollection e)
         \<and> ui (snd (activate True e (init False m))) = Some UI
         \<and> activeDocument (snd (activate True e (init False m))) = None"
proof -
  have w: "tempCommands (watching e (init False m)) \<noteq> []"
      "activatedPreviously_bound (watching e (init False m))"
      "\<not> realActivationOccurred (watching e (init False m))"
    using watching_gate[of e "init False m"] by (simp_all add: init_fields)
  have "activeDocument (watching e (init False m)) = None"
    by (simp add: watching_def afterFastPath_def registerCommands_def init_def)
  then show ?thesis
    using onActivationEvent_quiet[OF w assms] by (simp add: activate_unfold)
qed

lemma other_commands_activate_first:
  assumes "c \<noteq> AddToIncludePath" "tempCommands s \<noteq> []" "activatedPreviously_bound s"
  shows "realActivationOccurred (snd (commandHandler c arg e s))
         \<and> tempCommands (snd (commandHandler c arg e s)) = []
         \<and> activatedPreviously_Value (snd (commandHandler c arg e s))"
  using commandHandler_gate[OF assms(1), of arg e s] onActivationEvent_fires[OF assms(2,3), of e]
  by (simp add: gate_def)





lemma indexOf_lower: "- 1 \<le> indexOf xs x"
  by (induction xs) auto

lemma indexOf_absent: "(indexOf xs x = - 1) = (x \<notin> set xs)"
proof (induction xs)
  case Nil
  then show ?case by simp
next
  case (Cons y ys)
  then show ?case using indexOf_lower[of ys x] by auto
qed

lemma indexOf_nonneg: "x \<in> set xs \<Longrightarrow> 0 \<le> indexOf xs x"
proof (induction xs)
  case Nil
  then show ?case by simp
next
  case (Cons y ys)
  then show ?case by (cases "y = x") (simp_all add: indexOf_absent)
qed

lemma splice1_indexOf: "x \<in> set xs \<Longrightarrow> splice1 xs (nat (indexOf xs x)) = remove1 x xs"
proof (induction xs)
  case Nil
  then show ?case by simp
next
  case (Cons y ys)
  show ?case
  proof (cases "y = x")
    case True
    then show ?thesis by (simp add: splice1_def)
  next
    case False
    with Cons.prems have m: "x \<in> set ys" by simp
    then have "0 \<le> indexOf ys x" by (rule indexOf_nonneg)
    then have "nat (indexOf ys x + 1) = Suc (nat (indexOf ys x))" by simp
    with False m Cons.IH show ?thesis
      by (simp add: splice1_def indexOf_absent)
  qed
qed

lemma toggleSnippets_add:
  "snippetsCatName \<notin> set (categories m) \<Longrightarrow>
   toggleSnippets m =
     (m\<lparr>categories := categories m @ [snippetsCatName],
        contributes_snippets := Some [(''cpp'', ''./cpp_snippets.json''), (''c'', ''./cpp_snippets.json'')]\<rparr>,
      ''Reload Window to finish enabling C++ snippets'')"
  by (simp add: toggleSnippets_def indexOf_absent)

lemma toggleSnippets_remove:
  "snippetsCatName \<in> set (categories m) \<Longrightarrow>
   toggleSnippets m =
     (m\<lparr>categories := remove1 snippetsCatName (categories m), contributes_snippets := None\<rparr>,
      ''Reload Window to finish disabling C++ snippets'')"
  by (simp add: toggleSnippets_def indexOf_absent splice1_indexOf Let_def)

lemma remove1_append_absent: "x \<notin> set xs \<Longrightarrow> remove1 x (xs @ [x]) = xs"
  by (induction xs) auto

lemma download_later_requests:
  "\<forall>q \<in> set (tl (fst (downloadFileToDestination n nw u d h))). snd q = None"
proof (induction n arbitrary: u h)
  case 0
  then show ?case by simp
next
  case (Suc n)
  have r: "\<forall>q \<in> set (fst (downloadFileToDestination n nw v d None)). snd q = None" for v
  proof (cases n)
    case 0
    then show ?thesis by simp
  next
    case (Suc k)
    have "fst (downloadFileToDestination (Suc k) nw v d None) \<noteq> []"
      by (simp add: Let_def split: response.splits location.splits list.splits)
    moreover have "snd (hd (fst (downloadFileToDestination (Suc k) nw v d None))) = None"
      by (simp add: Let_def split: response.splits location.splits list.splits)
    ultimately show ?thesis
      using Suc.IH[of v None] Suc
      by (cases "fst (downloadFileToDestination (Suc k) nw v d None)") auto
  qed
  show ?case
    using r by (auto simp add: Let_def split: response.splits location.splits list.splits)
qed




lemma realActivation_packageJson: "packageJson (snd (realActivation e s)) = packageJson s"
  by (simp add: act_defs split: option.splits prod.splits if_splits)

lemma onActivationEvent_packageJson: "packageJson (snd (onActivationEvent e s)) = packageJson s"
  using realActivation_packageJson[of e "(emit (map Dispose (tempCommands s)) s)\<lparr>tempCommands := []\<rparr>"]
  by (auto simp add: onActivationEvent_def returns_def throws_def emit_def
      split: option.splits prod.splits if_splits)


lemma gate_onceInv: "gate s' = gate s \<Longrightarrow> onceInv s' = onceInv s"
  by (simp add: gate_def onceInv_def)

lemma onActivationEvent_onceInv:
  "watcherInv s \<Longrightarrow> onceInv s \<Longrightarrow> onceInv (snd (onActivationEvent e s))"
  using onActivationEvent_fires[of s e] onActivationEvent_idle[of s e]
  by (cases "tempCommands s = []") (auto simp add: watcherInv_def onceInv_def)

lemma guarded_realActivation_once:
  "watcherInv s \<and> onceInv s \<Longrightarrow>
   watcherInv (snd (if \<not> realActivationOccurred s then realActivation e s else returns s))
   \<and> onceInv (snd (if \<not> realActivationOccurred s then realActivation e s else returns s))"
  using realActivation_gate[of e s] realActivation_count[of e s]
  by (auto simp add: watcherInv_def onceInv_def returns_def)

lemma fire_onceInv:
  assumes "\<not> isActivate ev" and "watcherInv s \<and> onceInv s"
  shows "watcherInv (fire e ev s) \<and> onceInv (fire e ev s)"
proof (cases ev)
  case (Activate b)
  with assms(1) show ?thesis by simp
next
  case (DidOpenTextDocument d)
  from assms(2) show ?thesis unfolding DidOpenTextDocument fire.simps
    by (rule deliver_preserves[rotated])
       (auto simp add: subscribers_def onDidOpenTextDocument_def returns_def
          onActivationEvent_onceInv onActivationEvent_watcherInv)
next
  case (ExecuteCommand c arg)
  from assms(2) show ?thesis
    using commandHandler_gate[of c arg e s] onAddToIncludePath_gate[of arg e s]
      onActivationEvent_onceInv[of s e] onActivationEvent_watcherInv[of s e]
    by (cases "c = AddToIncludePath")
       (auto simp add: ExecuteCommand dest: gate_watcherInv gate_onceInv)
next
  case GetClients
  from assms(2) show ?thesis using guarded_realActivation_once[of s e]
    by (simp only: GetClients fire.simps getClients_state)
next
  case GetActiveClient
  from assms(2) show ?thesis using guarded_realActivation_once[of s e]
    by (simp only: GetActiveClient fire.simps getActiveClient_state)
next
  case (DidChangeActiveTextEditor ed)
  from assms(2) show ?thesis unfolding DidChangeActiveTextEditor fire.simps
    by (rule deliver_preserves[rotated])
       (auto simp add: subscribers_def gate_watcherInv[OF onDidChangeActiveTextEditor_gate]
          gate_onceInv[OF onDidChangeActiveTextEditor_gate])
next
  case (DidChangeTextEditorSelection sev)
  from assms(2) show ?thesis unfolding DidChangeTextEditorSelection fire.simps
    by (rule deliver_preserves[rotated])
       (auto simp add: subscribers_def gate_watcherInv[OF onDidChangeTextEditorSelection_gate]
          gate_onceInv[OF onDidChangeTextEditorSelection_gate])
qed

lemma run_onceInv:
  "\<forall>x \<in> set evs. \<not> isActivate (snd x) \<Longrightarrow> watcherInv s \<and> onceInv s \<Longrightarrow>
   watcherInv (run evs s) \<and> onceInv (run evs s)"
proof (induction evs arbitrary: s)
  case Nil
  then show ?case by simp
next
  case (Cons x evs)
  obtain e ev where x: "x = (e, ev)" by (cases x)
  from Cons.prems have "\<not> isActivate ev" by (simp add: x)
  then have "watcherInv (fire e ev s) \<and> onceInv (fire e ev s)"
    using Cons.prems(2) by (rule fire_onceInv)
  with Cons.IH[of "fire e ev s"] Cons.prems(1) show ?case by (simp add: x)
qed

lemma single_activate_once:
  assumes "\<forall>x \<in> set evs. \<not> isActivate (snd x)"
  shows "realActivations (run ((e, Activate b) # evs) (init p m)) \<le> 1"
proof -
  have "watcherInv (fire e (Activate b) (init p m)) \<and> onceInv (fire e (Activate b) (init p m))"
    using activate_gate[of b e "init p m"]
    by (auto simp add: watcherInv_def onceInv_def init_fields)
  with assms have "onceInv (run evs (fire e (Activate b) (init p m)))"
    using run_onceInv by blast
  then show ?thesis by (simp add: onceInv_def split: if_splits)
qed

lemma realActivation_effect:
  "ui (snd (realActivation e s)) = Some UI
   \<and> intervalTimer (snd (realActivation e s)) = Some (Interval_onInterval 2500)
   \<and> disposables (snd (realActivation e s))
       = disposables s @ [Sub_onDidChangeConfiguration, Sub_onDidSaveTextDocument,
                          Sub_onDidChangeActiveTextEditor, Sub_onDidChangeTextEditorSelection,
                          Sub_onDidChangeVisibleTextEditors]
   \<and> languageConfigurations (snd (realActivation e s))
       = [LanguageConfiguration ''c'', LanguageConfiguration ''cpp'']
   \<and> clients (snd (realActivation e s))
       = Some (case activeTextEditor e of
                 None \<Rightarrow> newClientCollection e
               | Some ed \<Rightarrow>
                   if nonEmpty (textDocuments e)
                      \<and> (languageId (document ed) = ''cpp'' \<or> languageId (document ed) = ''c'')
                   then activeDocumentChanged e (document ed) (newClientCollection e)
                   else newClientCollection e)"
  by (simp add: act_defs split: option.splits prod.splits if_splits)

lemma realActivation_trace:
  "effects (snd (realActivation e s))
     = effects s @ [New_ClientCollection, GetUI]
       @ (if nonEmpty (textDocuments e)
          then (case activeTextEditor e of
                  None \<Rightarrow> [UI_activeDocumentChanged]
                | Some ed \<Rightarrow>
                    if languageId (document ed) = ''cpp'' \<or> languageId (document ed) = ''c''
                    then [Clients_activeDocumentChanged (document ed),
                          Client_selectionChanged
                            (ActiveClient (activeDocumentChanged e (document ed) (newClientCollection e)))
                            (selection_start ed),
                          UI_activeDocumentChanged]
                    else [UI_activeDocumentChanged])
          else [])
       @ concat (map (\<lambda>c. map (Client_onRegisterCustomConfigurationProvider c) (customConfigProviders e))
                   (forEach_client (the (clients (snd (realActivation e s))))))
       @ map Dispose_languageConfiguration (languageConfigurations s)
       @ [SetLanguageConfiguration ''c'' (ActiveClient (the (clients (snd (realActivation e s))))),
          SetLanguageConfiguration ''cpp'' (ActiveClient (the (clients (snd (realActivation e s)))))]
       @ (if process_platform e = ''darwin'' then [Fs_stat_crashFolder] else [])
       @ [SetInterval (Interval_onInterval 2500)]"
  by (simp add: act_defs split: option.splits prod.splits if_splits)

section \<open>Properties of the extension\<close>

text \<open>
  C1. Claim: for every sequence of calls to the activation entry point and of
  activation events, full activation (\<^verbatim>\<open>realActivation\<close>: the client collection is
  constructed, the listeners are subscribed, the heartbeat timer is started) runs at
  most once per process.

  The code does not do this. \<^verbatim>\<open>onActivationEvent\<close>, \<^verbatim>\<open>getClients\<close> and
  \<^verbatim>\<open>getActiveClient\<close> call \<^verbatim>\<open>realActivation\<close> only under
  \<^verbatim>\<open>!realActivationOccurred\<close>; the persisted fast path at the top of
  \<^verbatim>\<open>activate\<close> calls it with no such test. Evaluated here: two calls of
  \<^verbatim>\<open>activate(true)\<close> construct the client collection twice and start two
  heartbeat timers (the first call leaves the persisted flag set, the second call
  takes the fast path); so does \<^verbatim>\<open>getClients()\<close> followed by
  \<^verbatim>\<open>activate(false)\<close> when the previous session left the flag set.
  When \<^verbatim>\<open>activate\<close> is called once, before anything else, full activation
  does run at most once (lemma \<open>single_activate_once\<close>).
\<close>

theorem repeated_activate_runs_realActivation_twice:
  "realActivations (run [(dormantEnv, Activate True), (dormantEnv, Activate True)]
                        (init False emptyManifest)) = 2
   \<and> heartbeatTimers (run [(dormantEnv, Activate True), (dormantEnv, Activate True)]
                          (init False emptyManifest)) = 2
   \<and> realActivations (run [(dormantEnv, GetClients), (dormantEnv, Activate False)]
                          (init True emptyManifest)) = 2"
proof -
  have g: "activatedPreviously_Value (fire dormantEnv GetClients (init True emptyManifest))"
      "realActivations (fire dormantEnv GetClients (init True emptyManifest)) = 1"
    using realActivation_gate[of dormantEnv "init True emptyManifest"]
      realActivation_count[of dormantEnv "init True emptyManifest"]
    by (simp_all add: getClients_state init_fields)
  show ?thesis
    using g by (simp add: activate_gate init_fields dormantEnv_scans)
qed

text \<open>
  C2. Claim: every registered command handler calls the activation guard
  (\<^verbatim>\<open>onActivationEvent\<close>) unconditionally as its first step, the handler of
  add-to-include-path included.

  Seventeen of the eighteen handlers do (lemma \<open>other_commands_activate_first\<close>);
  \<^verbatim>\<open>onAddToIncludePath\<close> does not call the guard at all. Evaluated here on a
  dormant extension with a folder open: the command is registered, its handler
  dereferences the still undefined \<^verbatim>\<open>clients\<close> and throws, and the extension is
  left dormant, while another command (toggle-squiggles) activates it first.
\<close>

theorem onAddToIncludePath_skips_activation:
  "Command (commandId AddToIncludePath) \<in> set (disposables dormantState)
   \<and> \<not> realActivationOccurred dormantState
   \<and> commandHandler AddToIncludePath ''/usr/include'' dormantEnv dormantState
       = (Some TypeError, dormantState)
   \<and> realActivationOccurred (snd (commandHandler ToggleErrorSquiggles '''' dormantEnv dormantState))"
proof -
  have s: "dormantState
             = (registerCommands ((init False emptyManifest)\<lparr>activatedPreviously_bound := True\<rparr>))
                 \<lparr>tempCommands := [Sub_onDidOpenTextDocument]\<rparr>"
    by (simp add: dormantState_def activate_dormant dormantEnv_scans init_fields)
  have c: "clients dormantState = None" by (simp add: s registerCommands_def init_def)
  have 1: "commandHandler AddToIncludePath ''/usr/include'' dormantEnv dormantState
             = (Some TypeError, dormantState)"
    using c by (simp add: onAddToIncludePath_def dormantEnv_scans ActiveClient_call_def throws_def)
  have 2: "\<not> realActivationOccurred dormantState" by (simp add: s registerCommands_def init_def)
  have 3: "Command (commandId AddToIncludePath) \<in> set (disposables dormantState)"
    by (simp add: s registerCommands_def registeredCommands_def)
  have 4: "realActivationOccurred (snd (commandHandler ToggleErrorSquiggles '''' dormantEnv dormantState))"
    by (rule other_commands_activate_first[THEN conjunct1])
       (simp_all add: s registerCommands_def)
  from 1 2 3 4 show ?thesis by simp
qed

text \<open>
  C3. Claim: after every execution of the full-activation path the persisted flag
  \<^verbatim>\<open>activatedPreviously\<close> is true, whichever way full activation was reached,
  the persisted fast path included.

  Counterexample: the previous session left the flag set and this session sees no
  activation event. \<^verbatim>\<open>activate\<close> clears the flag, runs full activation, and
  returns with the flag still cleared, as the comment in \<^verbatim>\<open>activate\<close> says
  (``If onActivationEvent doesn't occur, it won't auto-activate next time'').
\<close>

theorem fast_path_leaves_flag_cleared:
  "realActivationOccurred (snd (activate False dormantEnv (init True emptyManifest)))
   \<and> realActivations (snd (activate False dormantEnv (init True emptyManifest))) = 1
   \<and> \<not> activatedPreviously_Value (snd (activate False dormantEnv (init True emptyManifest)))"
  by (simp add: activate_gate init_fields dormantEnv_scans)

text \<open>
  C3, amended. The flag is set by \<^verbatim>\<open>onActivationEvent\<close>, not by full activation.
  After \<^verbatim>\<open>activate\<close> the flag is true exactly when an activation event was found
  (the caller reported one, a workspace folder holds the configuration file, or a C or
  C++ document is open), and then full activation has occurred; the persisted fast path
  alone leaves it false. While the temporary watcher is subscribed, opening a C or C++
  document runs full activation (if it has not run) and sets the flag. How often
  \<^verbatim>\<open>realActivation\<close> runs on each path is counted: once for the fast path, once
  more for an activation event that finds the extension not yet activated.
\<close>

theorem activation_event_persists_flag:
  "activatedPreviously_Value (snd (activate b e s)) = (b \<or> scanFolders e \<or> scanDocuments e)
   \<and> (b \<or> scanFolders e \<or> scanDocuments e \<longrightarrow> realActivationOccurred (snd (activate b e s)))
   \<and> (tempCommands s \<noteq> [] \<and> activatedPreviously_bound s
        \<and> (languageId d = ''c'' \<or> languageId d = ''cpp'')
      \<longrightarrow> realActivationOccurred (snd (onDidOpenTextDocument d e s))
          \<and> activatedPreviously_Value (snd (onDidOpenTextDocument d e s)))
   \<and> realActivations (snd (activate b e s))
       = realActivations s + (if activatedPreviously_Value s then 1 else 0)
         + (if (b \<or> scanFolders e \<or> scanDocuments e) \<and> \<not> activatedPreviously_Value s
               \<and> \<not> realActivationOccurred s then 1 else 0)
   \<and> heartbeatTimers (snd (activate b e s))
       = heartbeatTimers s + (if activatedPreviously_Value s then 1 else 0)
         + (if (b \<or> scanFolders e \<or> scanDocuments e) \<and> \<not> activatedPreviously_Value s
               \<and> \<not> realActivationOccurred s then 1 else 0)
   \<and> (tempCommands s \<noteq> [] \<and> activatedPreviously_bound s
        \<and> (languageId d = ''c'' \<or> languageId d = ''cpp'')
      \<longrightarrow> realActivations (snd (onDidOpenTextDocument d e s))
            = (if realActivationOccurred s then realActivations s else Suc (realActivations s))
          \<and> heartbeatTimers (snd (onDidOpenTextDocument d e s))
            = (if realActivationOccurred s then heartbeatTimers s else Suc (heartbeatTimers s)))"
  using onActivationEvent_fires[of s e] activate_gate[of b e s]
  by (simp add: onDidOpenTextDocument_def)

theorem activation_event_persists_flag_witness:
  "activatedPreviously_Value (snd (activate True dormantEnv (init False emptyManifest)))
   \<and> realActivationOccurred (snd (activate True dormantEnv (init False emptyManifest)))
   \<and> realActivations (snd (activate True dormantEnv (init False emptyManifest))) = 1
   \<and> heartbeatTimers (snd (activate True dormantEnv (init False emptyManifest))) = 1
   \<and> tempCommands dormantState \<noteq> [] \<and> activatedPreviously_bound dormantState
   \<and> languageId docB = ''cpp''
   \<and> realActivationOccurred (snd (onDidOpenTextDocument docB dormantEnv dormantState))
   \<and> activatedPreviously_Value (snd (onDidOpenTextDocument docB dormantEnv dormantState))
   \<and> realActivations (snd (onDidOpenTextDocument docB dormantEnv dormantState)) = 1
   \<and> heartbeatTimers (snd (onDidOpenTextDocument docB dormantEnv dormantState)) = 1"
proof -
  have h: "tempCommands dormantState \<noteq> []" "activatedPreviously_bound dormantState"
      "languageId docB = ''cpp''" "\<not> realActivationOccurred dormantState"
      "realActivations dormantState = 0" "heartbeatTimers dormantState = 0"
    by (simp_all add: dormantState_def activate_gate dormantEnv_scans init_fields docB_def)
  from activation_event_persists_flag[of True dormantEnv "init False emptyManifest" docB]
    activation_event_persists_flag[of True dormantEnv dormantState docB] h
  show ?thesis by (simp add: init_fields)
qed




text \<open>
  C5. With exactly one registered client \<^verbatim>\<open>selectClient\<close> resolves to the active
  client and the picker is not shown (no effect is added). With two or more it shows
  the picker; a non-empty key of a registered client resolves to that client; an empty
  (dismissed) or unknown key gives a rejected result, which the handler's empty
  rejection callback consumes: the handler returns normally and no client is called.
\<close>

theorem selectClient_resolution:
  assumes "clients s = Some cc" and "ui s = Some u"
  shows "(Count cc = 1 \<longrightarrow>
            selectClient e s = (Inr (Resolved (ActiveClient cc)), s)
            \<and> selectClient_then req e s = (None, emit [Client_call (ActiveClient cc) req] s))
         \<and> (2 \<le> Count cc \<and> showWorkspaces e (Names cc) \<noteq> ''''
              \<and> get_client cc (showWorkspaces e (Names cc)) = Some c \<longrightarrow>
            selectClient e s = (Inr (Resolved c), emit [UI_showWorkspaces (Names cc)] s)
            \<and> selectClient_then req e s
                = (None, emit [UI_showWorkspaces (Names cc), Client_call c req] s))
         \<and> (2 \<le> Count cc \<and> (showWorkspaces e (Names cc) = ''''
                               \<or> get_client cc (showWorkspaces e (Names cc)) = None) \<longrightarrow>
            selectClient e s
                = (Inr (Rejected ''client not found''), emit [UI_showWorkspaces (Names cc)] s)
            \<and> selectClient_then req e s = (None, emit [UI_showWorkspaces (Names cc)] s))
         \<and> (tempCommands s = [] \<longrightarrow> onResetDatabase e s = selectClient_then ResetDatabase e s)"
proof -
  have one: "Count cc = 1 \<longrightarrow>
            selectClient e s = (Inr (Resolved (ActiveClient cc)), s)
            \<and> selectClient_then req e s = (None, emit [Client_call (ActiveClient cc) req] s)"
    using assms by (simp add: selectClient_then_def selectClient_def returns_def)
  have picked: "2 \<le> Count cc \<and> showWorkspaces e (Names cc) \<noteq> ''''
              \<and> get_client cc (showWorkspaces e (Names cc)) = Some c \<longrightarrow>
            selectClient e s = (Inr (Resolved c), emit [UI_showWorkspaces (Names cc)] s)
            \<and> selectClient_then req e s
                = (None, emit [UI_showWorkspaces (Names cc), Client_call c req] s)"
    using assms by (simp add: selectClient_then_def selectClient_def returns_def emit_def Let_def)
  have rejected: "2 \<le> Count cc \<and> (showWorkspaces e (Names cc) = ''''
                               \<or> get_client cc (showWorkspaces e (Names cc)) = None) \<longrightarrow>
            selectClient e s
                = (Inr (Rejected ''client not found''), emit [UI_showWorkspaces (Names cc)] s)
            \<and> selectClient_then req e s = (None, emit [UI_showWorkspaces (Names cc)] s)"
    using assms by (auto simp add: selectClient_then_def selectClient_def returns_def Let_def)
  have handler: "onResetDatabase e s = selectClient_then ResetDatabase e s"
    if "tempCommands s = []"
    using chain_single[of "selectClient_then ResetDatabase e" s]
    by (simp add: onResetDatabase_def onActivationEvent_idle[OF that])
  from one picked rejected handler show ?thesis by blast
qed

theorem selectClient_resolution_witness:
  "selectClient dormantEnv (activeState dormantEnv)
     = (Inr (Resolved w_client), activeState dormantEnv)
   \<and> selectClient (pickerEnv ''b'') (activeState (pickerEnv ''b''))
     = (Inr (Resolved clientB),
        emit [UI_showWorkspaces [''a'', ''b'']] (activeState (pickerEnv ''b'')))
   \<and> onResetDatabase (pickerEnv ''b'') (activeState (pickerEnv ''b''))
     = (None, emit [UI_showWorkspaces [''a'', ''b''], Client_call clientB ResetDatabase]
                (activeState (pickerEnv ''b'')))
   \<and> selectClient (pickerEnv '''') (activeState (pickerEnv ''''))
     = (Inr (Rejected ''client not found''),
        emit [UI_showWorkspaces [''a'', ''b'']] (activeState (pickerEnv '''')))
   \<and> onResetDatabase (pickerEnv ''c'') (activeState (pickerEnv ''c''))
     = (None, emit [UI_showWorkspaces [''a'', ''b'']] (activeState (pickerEnv ''c'')))"
proof -
  have q: "\<not> nonEmpty (textDocuments dormantEnv)" "\<not> nonEmpty (textDocuments (pickerEnv k))" for k
    by (simp_all add: nonEmpty_def dormantEnv_def pickerEnv_def)
  have c1: "clients (activeState dormantEnv) = Some (newClientCollection dormantEnv)"
      "ui (activeState dormantEnv) = Some UI"
    using activate_quiet[OF q(1), of emptyManifest] by (simp_all add: activeState_def)
  have c2: "clients (activeState (pickerEnv k)) = Some twoClients"
      "ui (activeState (pickerEnv k)) = Some UI"
      "tempCommands (activeState (pickerEnv k)) = []" for k
    using activate_quiet[OF q(2), of k emptyManifest]
    by (simp_all add: activeState_def activate_gate) (simp add: pickerEnv_def)
  have n: "Count (newClientCollection dormantEnv) = 1"
      "ActiveClient (newClientCollection dormantEnv) = w_client"
      "Count twoClients = 2" "Names twoClients = [''a'', ''b'']"
      "get_client twoClients ''b'' = Some clientB" "get_client twoClients ''c'' = None"
      "showWorkspaces (pickerEnv k) ns = k" for k ns
    by (simp_all add: Count_def Names_def get_client_def dormantEnv_def twoClients_def pickerEnv_def)
  from selectClient_resolution[where e = dormantEnv and req = ResetDatabase and c = clientB, OF c1]
    selectClient_resolution[where e = "pickerEnv ''b''" and req = ResetDatabase and c = clientB,
      OF c2(1)[of "''b''"] c2(2)[of "''b''"]]
    selectClient_resolution[where e = "pickerEnv ''''" and req = ResetDatabase and c = clientB,
      OF c2(1)[of "''''"] c2(2)[of "''''"]]
    selectClient_resolution[where e = "pickerEnv ''c''" and req = ResetDatabase and c = clientB,
      OF c2(1)[of "''c''"] c2(2)[of "''c''"]]
    c2(3) n
  show ?thesis by simp
qed




text \<open>
  C7. The self-update check stops at its version gate exactly when the current version
  string (the package version with an \<^verbatim>\<open>-insiders\<close> suffix stripped) is
  greater than or equal to the name of the first entry of the release list, in the
  order of strings, not of version numbers. With current 1.2.0 and latest 1.3.0 the
  check goes past the gate (here: on to the installation); with 1.3.0 and 1.3.0 it
  stops; and with current 1.10.0 and latest 1.9.0 it goes past the gate, since
  1.10.0 is the smaller string.
\<close>

theorem version_gate:
  "(currentVersion (packageJson_version u) = Some v \<and> v \<noteq> ''''
      \<and> snd (downloadFileToDestination (fuel u) (net u)
                ''https://api.github.com/repos/Microsoft/vscode-cpptools/releases''
                (getExtensionFilePath u ''releases.json'')
                (Some [(''User-Agent'', ''vscode-cpptools'')])) = Download_resolved
      \<and> parsedJson u = Some (latestBuild # older)
    \<longrightarrow> (checkAndApplyUpdate u = Update_returns UpToDate) = (v \<ge> release_name latestBuild))
   \<and> checkAndApplyUpdate (updateExample ''1.2.0'' ''1.3.0'')
       = Update_exec ''/usr/share/code --install-extension /ext/cpptools-linux.vsix''
   \<and> checkAndApplyUpdate (updateExample ''1.3.0'' ''1.3.0'') = Update_returns UpToDate
   \<and> checkAndApplyUpdate (updateExample ''1.10.0'' ''1.9.0'')
       = Update_exec ''/usr/share/code --install-extension /ext/cpptools-linux.vsix''"
proof -
  have gate: "currentVersion (packageJson_version u) = Some v \<and> v \<noteq> ''''
      \<and> snd (downloadFileToDestination (fuel u) (net u)
                ''https://api.github.com/repos/Microsoft/vscode-cpptools/releases''
                (getExtensionFilePath u ''releases.json'')
                (Some [(''User-Agent'', ''vscode-cpptools'')])) = Download_resolved
      \<and> parsedJson u = Some (latestBuild # older)
    \<longrightarrow> (checkAndApplyUpdate u = Update_returns UpToDate) = (v \<ge> release_name latestBuild)"
    by (auto simp add: checkAndApplyUpdate_def
        split: option.splits download_result.splits list.splits)
  have v: "currentVersion ''1.2.0'' = Some ''1.2.0''" "currentVersion ''1.3.0'' = Some ''1.3.0''"
      "currentVersion ''1.10.0'' = Some ''1.10.0''"
    by (simp_all add: currentVersion_def)
  have o: "\<not> (''1.3.0'' \<le> ''1.2.0'')" "(''1.3.0'' :: string) \<le> ''1.3.0''" "\<not> (''1.9.0'' \<le> ''1.10.0'')"
    by (simp_all add: less_char_def)
  have d: "downloadFileToDestination 3 (\<lambda>u h. Response 200 Location_undefined True) a b c
             = ([(a, c)], Download_resolved)" for a b c
    by (simp add: numeral_3_eq_3)
  have ex: "checkAndApplyUpdate (updateExample ''1.2.0'' ''1.3.0'')
       = Update_exec ''/usr/share/code --install-extension /ext/cpptools-linux.vsix''"
     "checkAndApplyUpdate (updateExample ''1.3.0'' ''1.3.0'') = Update_returns UpToDate"
     "checkAndApplyUpdate (updateExample ''1.10.0'' ''1.9.0'')
       = Update_exec ''/usr/share/code --install-extension /ext/cpptools-linux.vsix''"
    using v o by (simp_all add: checkAndApplyUpdate_def updateExample_def d vsixName_def
        vsCodeCommandFile_def)
  from gate ex show ?thesis by blast
qed

theorem version_gate_witness:
  "currentVersion (packageJson_version (updateExample ''1.3.0-insiders'' ''1.3.0'')) = Some ''1.3.0''
   \<and> checkAndApplyUpdate (updateExample ''1.3.0-insiders'' ''1.3.0'') = Update_returns UpToDate
   \<and> currentVersion (packageJson_version (updateExample ''1.2.9'' ''1.3.0'')) = Some ''1.2.9''
   \<and> checkAndApplyUpdate (updateExample ''1.2.9'' ''1.3.0'') \<noteq> Update_returns UpToDate"
proof -
  have v: "currentVersion (packageJson_version (updateExample ''1.3.0-insiders'' ''1.3.0'')) = Some ''1.3.0''"
      "currentVersion (packageJson_version (updateExample ''1.2.9'' ''1.3.0'')) = Some ''1.2.9''"
    by (simp_all add: currentVersion_def updateExample_def)
  have d: "snd (downloadFileToDestination (fuel (updateExample c l)) (net (updateExample c l))
                ''https://api.github.com/repos/Microsoft/vscode-cpptools/releases''
                (getExtensionFilePath (updateExample c l) ''releases.json'')
                (Some [(''User-Agent'', ''vscode-cpptools'')])) = Download_resolved" for c l
    by (simp add: updateExample_def numeral_3_eq_3)
  have p: "parsedJson (updateExample c l)
             = Some (\<lparr>release_name = l,
                       assets = [\<lparr>asset_name = ''cpptools-linux.vsix'',
                                  browser_download_url = ''https://host/cpptools-linux.vsix''\<rparr>]\<rparr> # [])" for c l
    by (simp add: updateExample_def)
  have o: "(''1.3.0'' :: string) \<le> ''1.3.0''" "\<not> (''1.3.0'' \<le> ''1.2.9'')"
    by (simp_all add: less_char_def)
  from version_gate[THEN conjunct1, rule_format, OF conjI[OF v(1) conjI[OF _ conjI[OF d p]]]]
    version_gate[THEN conjunct1, rule_format, OF conjI[OF v(2) conjI[OF _ conjI[OF d p]]]]
    v o
  show ?thesis by simp
qed

text \<open>
  C8. Claim: applied twice to any manifest whose categories lack the snippets entry,
  the snippets toggle restores the manifest's categories and contributes sections.

  Counterexample: a manifest without the category that still has a
  \<^verbatim>\<open>contributes.snippets\<close> node. The first toggle overwrites the node, the second
  deletes it: the categories come back, the node does not.
\<close>

theorem toggle_twice_loses_stale_snippets:
  "snippetsCatName \<notin> set (categories staleManifest)
   \<and> categories (fst (toggleSnippets (fst (toggleSnippets staleManifest)))) = categories staleManifest
   \<and> contributes_snippets (fst (toggleSnippets (fst (toggleSnippets staleManifest)))) = None
   \<and> contributes_snippets staleManifest = Some [(''cpp'', ''./cpp_snippets.json'')]
   \<and> fst (toggleSnippets (fst (toggleSnippets staleManifest))) \<noteq> staleManifest"
proof -
  have a: "snippetsCatName \<notin> set (categories staleManifest)"
    by (simp add: snippetsCatName_def staleManifest_def)
  have b: "contributes_snippets staleManifest = Some [(''cpp'', ''./cpp_snippets.json'')]"
    by (simp add: staleManifest_def)
  have c: "fst (toggleSnippets (fst (toggleSnippets staleManifest)))
             = staleManifest\<lparr>contributes_snippets := None\<rparr>"
    using a by (simp add: toggleSnippets_add toggleSnippets_remove remove1_append_absent)
  have "staleManifest\<lparr>contributes_snippets := None\<rparr> \<noteq> staleManifest"
  proof
    assume "staleManifest\<lparr>contributes_snippets := None\<rparr> = staleManifest"
    then have "contributes_snippets (staleManifest\<lparr>contributes_snippets := None\<rparr>)
                 = contributes_snippets staleManifest" by simp
    with b show False by simp
  qed
  with a b c show ?thesis by simp
qed

text \<open>
  C8, amended. The presence of the category name alone decides the branch: without
  it the toggle appends the name and sets the snippets node to the two fixed entries;
  with it the toggle removes the first occurrence of the name and deletes the node.
  Applied twice to a manifest whose categories lack the name, the toggle restores the
  categories, every other key, and the whole manifest when it had no snippets node to
  begin with. The handler stores what the toggle computes.
\<close>

theorem toggleSnippets_round_trip:
  "(snippetsCatName \<notin> set (categories m) \<longrightarrow>
      toggleSnippets m =
        (m\<lparr>categories := categories m @ [snippetsCatName],
           contributes_snippets := Some [(''cpp'', ''./cpp_snippets.json''),
                                         (''c'', ''./cpp_snippets.json'')]\<rparr>,
         ''Reload Window to finish enabling C++ snippets'')
      \<and> fst (toggleSnippets (fst (toggleSnippets m))) = m\<lparr>contributes_snippets := None\<rparr>
      \<and> categories (fst (toggleSnippets (fst (toggleSnippets m)))) = categories m
      \<and> (fst (toggleSnippets (fst (toggleSnippets m))) = m) = (contributes_snippets m = None))
   \<and> (snippetsCatName \<in> set (categories m) \<longrightarrow>
      toggleSnippets m =
        (m\<lparr>categories := remove1 snippetsCatName (categories m), contributes_snippets := None\<rparr>,
         ''Reload Window to finish disabling C++ snippets''))
   \<and> (fst (onActivationEvent e s) = None \<longrightarrow>
        packageJson (snd (onToggleSnippets e s)) = fst (toggleSnippets (packageJson s)))"
proof -
  have twice: "fst (toggleSnippets (fst (toggleSnippets m))) = m\<lparr>contributes_snippets := None\<rparr>"
    if "snippetsCatName \<notin> set (categories m)"
    using that by (simp add: toggleSnippets_add toggleSnippets_remove remove1_append_absent)
  have whole: "(m\<lparr>contributes_snippets := None\<rparr> = m) = (contributes_snippets m = None)"
  proof
    assume "m\<lparr>contributes_snippets := None\<rparr> = m"
    then have "contributes_snippets (m\<lparr>contributes_snippets := None\<rparr>) = contributes_snippets m"
      by simp
    then show "contributes_snippets m = None" by simp
  next
    assume "contributes_snippets m = None"
    then show "m\<lparr>contributes_snippets := None\<rparr> = m" by (cases m) simp
  qed
  have stored: "packageJson (snd (onToggleSnippets e s)) = fst (toggleSnippets (packageJson s))"
    if "fst (onActivationEvent e s) = None"
    using that onActivationEvent_packageJson[of e s]
    by (cases "onActivationEvent e s")
       (auto simp add: onToggleSnippets_def returns_def emit_def split: prod.splits)
  from twice whole stored show ?thesis
    by (auto simp add: toggleSnippets_add toggleSnippets_remove)
qed

theorem toggleSnippets_round_trip_witness:
  "snippetsCatName \<notin> set (categories emptyManifest)
   \<and> contributes_snippets emptyManifest = None
   \<and> fst (toggleSnippets (fst (toggleSnippets emptyManifest))) = emptyManifest
   \<and> snippetsCatName \<in> set (categories (fst (toggleSnippets emptyManifest)))
   \<and> fst (toggleSnippets (fst (toggleSnippets emptyManifest)))
       = (fst (toggleSnippets emptyManifest))
           \<lparr>categories := remove1 snippetsCatName (categories (fst (toggleSnippets emptyManifest))),
            contributes_snippets := None\<rparr>
   \<and> fst (onActivationEvent dormantEnv dormantState) = None
   \<and> packageJson (snd (onToggleSnippets dormantEnv dormantState))
       = fst (toggleSnippets (packageJson dormantState))"
proof -
  have d: "fst (onActivationEvent dormantEnv dormantState) = None"
    by (rule onActivationEvent_fires(1))
       (simp_all add: dormantState_def activate_gate dormantEnv_scans init_fields)
  have a: "snippetsCatName \<notin> set (categories emptyManifest)"
      "contributes_snippets emptyManifest = None"
    by (simp_all add: emptyManifest_def)
  have b: "snippetsCatName \<in> set (categories (fst (toggleSnippets emptyManifest)))"
    using toggleSnippets_round_trip[of emptyManifest dormantEnv dormantState] a by simp
  from toggleSnippets_round_trip[of emptyManifest dormantEnv dormantState]
    toggleSnippets_round_trip[of "fst (toggleSnippets emptyManifest)" dormantEnv dormantState] a b d
  show ?thesis by (simp add: emptyManifest_def)
qed

text \<open>
  C9. Calling the exported \<^verbatim>\<open>getClients()\<close> or \<^verbatim>\<open>getActiveClient()\<close>
  before full activation runs \<^verbatim>\<open>realActivation\<close>, once and to its end: the
  client collection is constructed (and told of the active C or C++ editor, if
  documents are open), the UI is fetched, the custom configuration providers are
  passed to every client, the five listeners are subscribed, the language
  configurations are set and the heartbeat timer is started; the caller receives the
  new collection, or its active client. Unlike the activation-event path the accessor
  leaves the temporary watchers subscribed (no disposable is disposed and
  \<^verbatim>\<open>tempCommands\<close> is unchanged) and does not touch the persisted flag.
\<close>

theorem getClients_activates_only:
  assumes "\<not> realActivationOccurred s"
  shows "fst (getClients e s) = realActivation e s
         \<and> fst (getActiveClient e s) = fst (getClients e s)
         \<and> fst (fst (getClients e s)) = None
         \<and> snd (getClients e s) = clients (snd (fst (getClients e s)))
         \<and> snd (getActiveClient e s) = map_option ActiveClient (clients (snd (fst (getClients e s))))
         \<and> realActivationOccurred (snd (fst (getClients e s)))
         \<and> clients (snd (fst (getClients e s)))
             = Some (case activeTextEditor e of
                       None \<Rightarrow> newClientCollection e
                     | Some ed \<Rightarrow>
                         if nonEmpty (textDocuments e)
                            \<and> (languageId (document ed) = ''cpp'' \<or> languageId (document ed) = ''c'')
                         then activeDocumentChanged e (document ed) (newClientCollection e)
                         else newClientCollection e)
         \<and> ui (snd (fst (getClients e s))) = Some UI
         \<and> intervalTimer (snd (fst (getClients e s))) = Some (Interval_onInterval 2500)
         \<and> disposables (snd (fst (getClients e s)))
             = disposables s @ [Sub_onDidChangeConfiguration, Sub_onDidSaveTextDocument,
                                Sub_onDidChangeActiveTextEditor, Sub_onDidChangeTextEditorSelection,
                                Sub_onDidChangeVisibleTextEditors]
         \<and> languageConfigurations (snd (fst (getClients e s)))
             = [LanguageConfiguration ''c'', LanguageConfiguration ''cpp'']
         \<and> effects (snd (fst (getClients e s)))
             = effects s @ [New_ClientCollection, GetUI]
               @ (if nonEmpty (textDocuments e)
                  then (case activeTextEditor e of
                          None \<Rightarrow> [UI_activeDocumentChanged]
                        | Some ed \<Rightarrow>
                            if languageId (document ed) = ''cpp'' \<or> languageId (document ed) = ''c''
                            then [Clients_activeDocumentChanged (document ed),
                                  Client_selectionChanged
                                    (ActiveClient (activeDocumentChanged e (document ed)
                                                     (newClientCollection e)))
                                    (selection_start ed),
                                  UI_activeDocumentChanged]
                            else [UI_activeDocumentChanged])
                  else [])
               @ concat (map (\<lambda>c. map (Client_onRegisterCustomConfigurationProvider c)
                                      (customConfigProviders e))
                           (forEach_client (the (clients (snd (fst (getClients e s)))))))
               @ map Dispose_languageConfiguration (languageConfigurations s)
               @ [SetLanguageConfiguration ''c''
                    (ActiveClient (the (clients (snd (fst (getClients e s)))))),
                  SetLanguageConfiguration ''cpp''
                    (ActiveClient (the (clients (snd (fst (getClients e s))))))]
               @ (if process_platform e = ''darwin'' then [Fs_stat_crashFolder] else [])
               @ [SetInterval (Interval_onInterval 2500)]
         \<and> realActivations (snd (fst (getClients e s))) = Suc (realActivations s)
         \<and> heartbeatTimers (snd (fst (getClients e s))) = Suc (heartbeatTimers s)
         \<and> tempCommands (snd (fst (getClients e s))) = tempCommands s
         \<and> (\<forall>d. count_list (effects (snd (fst (getClients e s)))) (Dispose d)
                  = count_list (effects s) (Dispose d))
         \<and> activatedPreviously_Value (snd (fst (getClients e s))) = activatedPreviously_Value s"
proof -
  have g: "fst (getClients e s) = realActivation e s"
    using assms by (simp add: getClients_def Let_def)
  have r: "fst (realActivation e s) = None" by (rule realActivation_returns)
  obtain cc where cc: "clients (snd (realActivation e s)) = Some cc"
    using realActivation_clients[of e s] by auto
  have a: "getActiveClient e s = (realActivation e s, Some (ActiveClient cc))"
    using assms r cc by (simp add: getActiveClient_def Let_def)
  have b: "snd (getClients e s) = clients (snd (realActivation e s))"
    using assms by (simp add: getClients_def Let_def)
  show ?thesis
    unfolding g
    using a b r cc realActivation_effect[of e s] realActivation_trace[of e s]
      realActivation_gate[of e s] realActivation_count[of e s] realActivation_timer[of e s]
      realActivation_no_dispose[of e s]
    by simp
qed

theorem getClients_activates_only_witness:
  "\<not> realActivationOccurred dormantState
   \<and> fst (getActiveClient dormantEnv dormantState) = fst (getClients dormantEnv dormantState)
   \<and> fst (fst (getClients dormantEnv dormantState)) = None
   \<and> snd (getClients dormantEnv dormantState) = Some (newClientCollection dormantEnv)
   \<and> snd (getActiveClient dormantEnv dormantState) = Some w_client
   \<and> realActivationOccurred (snd (fst (getClients dormantEnv dormantState)))
   \<and> ui (snd (fst (getClients dormantEnv dormantState))) = Some UI
   \<and> intervalTimer (snd (fst (getClients dormantEnv dormantState))) = Some (Interval_onInterval 2500)
   \<and> disposables (snd (fst (getClients dormantEnv dormantState)))
       = map (\<lambda>c. Command (commandId c)) registeredCommands
         @ [Sub_onDidChangeConfiguration, Sub_onDidSaveTextDocument,
            Sub_onDidChangeActiveTextEditor, Sub_onDidChangeTextEditorSelection,
            Sub_onDidChangeVisibleTextEditors]
   \<and> effects (snd (fst (getClients dormantEnv dormantState)))
       = [New_ClientCollection, GetUI,
          SetLanguageConfiguration ''c'' w_client, SetLanguageConfiguration ''cpp'' w_client,
          SetInterval (Interval_onInterval 2500)]
   \<and> heartbeatTimers (snd (fst (getClients dormantEnv dormantState))) = 1
   \<and> tempCommands (snd (fst (getClients dormantEnv dormantState))) = [Sub_onDidOpenTextDocument]
   \<and> \<not> activatedPreviously_Value (snd (fst (getClients dormantEnv dormantState)))"
proof -
  have s: "dormantState
             = (registerCommands ((init False emptyManifest)\<lparr>activatedPreviously_bound := True\<rparr>))
                 \<lparr>tempCommands := [Sub_onDidOpenTextDocument]\<rparr>"
    by (simp add: dormantState_def activate_dormant dormantEnv_scans init_fields)
  have h: "\<not> realActivationOccurred dormantState"
    by (simp add: s registerCommands_def init_def)
  have t: "tempCommands dormantState = [Sub_onDidOpenTextDocument]"
      "\<not> activatedPreviously_Value dormantState"
      "effects dormantState = []" "languageConfigurations dormantState = []"
      "heartbeatTimers dormantState = 0"
      "disposables dormantState = map (\<lambda>c. Command (commandId c)) registeredCommands"
    by (simp_all add: s registerCommands_def init_def heartbeatTimers_def)
  have v: "activeTextEditor dormantEnv = None" "\<not> nonEmpty (textDocuments dormantEnv)"
      "customConfigProviders dormantEnv = []" "process_platform dormantEnv \<noteq> ''darwin''"
      "ActiveClient (newClientCollection dormantEnv) = w_client"
    by (simp_all add: dormantEnv_def nonEmpty_def)
  from getClients_activates_only[OF h, of dormantEnv, THEN conjunct2] h t v
  show ?thesis by simp
qed

text \<open>
  C10. When the first response to a download that was given request headers is a
  301 or 302 redirect with a location, the request to the redirect location is issued
  with no headers: the recursive call does not pass them on. More generally, only
  the first request of a download can carry headers.
\<close>

theorem redirect_drops_headers:
  "(nw urlStr (Some h) = Response statusCode loc ok
      \<and> (statusCode = 301 \<or> statusCode = 302)
      \<and> (loc = Location_string redirectUrl \<or> loc = Location_array (redirectUrl # others))
    \<longrightarrow> take 2 (fst (downloadFileToDestination (Suc (Suc n)) nw urlStr dest (Some h)))
          = [(urlStr, Some h), (redirectUrl, None)]
        \<and> downloadFileToDestination (Suc (Suc n)) nw urlStr dest (Some h)
          = ((urlStr, Some h) # fst (downloadFileToDestination (Suc n) nw redirectUrl dest None),
             snd (downloadFileToDestination (Suc n) nw redirectUrl dest None)))
   \<and> (\<forall>q \<in> set (tl (fst (downloadFileToDestination k nw urlStr dest hdrs))). snd q = None)"
proof -
  have first: "take 1 (fst (downloadFileToDestination (Suc n) nw v dest None)) = [(v, None)]" for v
    by (simp add: Let_def split: response.splits location.splits list.splits)
  have "nw urlStr (Some h) = Response statusCode loc ok
      \<and> (statusCode = 301 \<or> statusCode = 302)
      \<and> (loc = Location_string redirectUrl \<or> loc = Location_array (redirectUrl # others))
    \<longrightarrow> take 2 (fst (downloadFileToDestination (Suc (Suc n)) nw urlStr dest (Some h)))
          = [(urlStr, Some h), (redirectUrl, None)]
        \<and> downloadFileToDestination (Suc (Suc n)) nw urlStr dest (Some h)
          = ((urlStr, Some h) # fst (downloadFileToDestination (Suc n) nw redirectUrl dest None),
             snd (downloadFileToDestination (Suc n) nw redirectUrl dest None))"
    using first[of redirectUrl]
    by (auto simp add: Let_def numeral_2_eq_2 simp del: downloadFileToDestination.simps(2)
        simp add: downloadFileToDestination.simps(2)[of "Suc n"])
  with download_later_requests[of k nw urlStr dest hdrs] show ?thesis by blast
qed

theorem redirect_drops_headers_witness:
  "redirectingNet ''https://host/latest'' (Some [(''User-Agent'', ''vscode-cpptools'')])
     = Response 302 (Location_string ''https://cdn/file'') True
   \<and> downloadFileToDestination 2 redirectingNet ''https://host/latest'' ''/ext/file''
        (Some [(''User-Agent'', ''vscode-cpptools'')])
     = ([(''https://host/latest'', Some [(''User-Agent'', ''vscode-cpptools'')]),
         (''https://cdn/file'', None)], Download_resolved)"
proof -
  have r: "redirectingNet ''https://host/latest'' (Some [(''User-Agent'', ''vscode-cpptools'')])
     = Response 302 (Location_string ''https://cdn/file'') True"
    by (simp add: redirectingNet_def)
  have t: "downloadFileToDestination (Suc 0) redirectingNet ''https://cdn/file'' ''/ext/file'' None
             = ([(''https://cdn/file'', None)], Download_resolved)"
    by (simp add: redirectingNet_def)
  from redirect_drops_headers[THEN conjunct1, rule_format,
      of redirectingNet "''https://host/latest''" "[(''User-Agent'', ''vscode-cpptools'')]"
         302 "Location_string ''https://cdn/file''" True "''https://cdn/file''" "[]" 0
         "''/ext/file''"] r t
  show ?thesis by (simp add: numeral_2_eq_2)
qed

end
